theory Spec2Isabelle
  imports Main "HOL-Library.Sublist"
begin

section \<open>Python strings\<close>

text \<open>
  A Python \<^verbatim>\<open>str\<close> is a sequence of code points. The model takes the strings over the
  code points 0..255, one \<^typ>\<open>char\<close> each, so that \<^term>\<open>List.length\<close> is Python's \<^verbatim>\<open>len\<close>
  and \<^verbatim>\<open>s[:n]\<close> is \<^term>\<open>take n s\<close>.
\<close>

text \<open>\<^verbatim>\<open>c.isspace()\<close> on the code points below 256: 9..13, 28..32, 133 and 160.\<close>

definition py_isspace :: "char \<Rightarrow> bool" where
  "py_isspace c =
     (let n = (of_char c :: nat)
      in (9 \<le> n \<and> n \<le> 13) \<or> (28 \<le> n \<and> n \<le> 32) \<or> n = 133 \<or> n = 160)"

text \<open>
  \<^verbatim>\<open>c.lower()\<close> on the code points below 256: the upper-case letters are 65..90, 192..214
  and 216..222, and each has its lower-case letter 32 places later.
\<close>

definition py_lower_char :: "char \<Rightarrow> char" where
  "py_lower_char c =
     (let n = (of_char c :: nat)
      in if (65 \<le> n \<and> n \<le> 90) \<or> (192 \<le> n \<and> n \<le> 214) \<or> (216 \<le> n \<and> n \<le> 222)
         then char_of (n + 32) else c)"

definition py_lower :: "string \<Rightarrow> string" where
  "py_lower s = map py_lower_char s"

text \<open>\<^verbatim>\<open>sub in s\<close>: \<^verbatim>\<open>sub\<close> occurs in \<^verbatim>\<open>s\<close> as a contiguous substring.\<close>

fun py_in :: "string \<Rightarrow> string \<Rightarrow> bool" where
  "py_in sub [] = (sub = [])"
| "py_in sub (c # cs) = (prefix sub (c # cs) \<or> py_in sub cs)"

text \<open>
  \<^verbatim>\<open>s.split(sep)\<close> for a non-empty separator: the pieces between the occurrences of
  \<^verbatim>\<open>sep\<close>, found from the left and not overlapping. (Python raises ValueError on an empty
  separator; the program only splits at the code fence.)
\<close>

function py_split :: "string \<Rightarrow> string \<Rightarrow> string list" where
  "py_split sep [] = [[]]"
| "py_split sep (c # cs) =
     (if sep \<noteq> [] \<and> prefix sep (c # cs)
      then [] # py_split sep (drop (List.length sep) (c # cs))
      else (case py_split sep cs of
              [] \<Rightarrow> [[c]]
            | p # ps \<Rightarrow> (c # p) # ps))"
  by pat_completeness auto
termination
  by (relation "measure (\<lambda>(sep, s). List.length s)") (auto simp: neq_Nil_conv)

text \<open>
  \<^verbatim>\<open>s.replace(old, new)\<close> for a non-empty \<^verbatim>\<open>old\<close>: every occurrence, found from the
  left and not overlapping, is replaced.
\<close>

function py_replace :: "string \<Rightarrow> string \<Rightarrow> string \<Rightarrow> string" where
  "py_replace old new [] = []"
| "py_replace old new (c # cs) =
     (if old \<noteq> [] \<and> prefix old (c # cs)
      then new @ py_replace old new (drop (List.length old) (c # cs))
      else c # py_replace old new cs)"
  by pat_completeness auto
termination
  by (relation "measure (\<lambda>(old, new, s). List.length s)") (auto simp: neq_Nil_conv)

text \<open>\<^verbatim>\<open>s.strip()\<close>: the white space at both ends is removed.\<close>

definition py_strip :: "string \<Rightarrow> string" where
  "py_strip s = rev (dropWhile py_isspace (rev (dropWhile py_isspace s)))"

text \<open>\<^verbatim>\<open>sep.join(xs)\<close>.\<close>

fun py_join :: "string \<Rightarrow> string list \<Rightarrow> string" where
  "py_join sep [] = []"
| "py_join sep [x] = x"
| "py_join sep (x # y # ys) = x @ sep @ py_join sep (y # ys)"

section \<open>Exceptions\<close>

text \<open>
  The exceptions the program can meet, each with what \<^verbatim>\<open>str(e)\<close> needs: a KeyError
  holds its key, the others their message. \<open>Raised\<close> is any exception of a library
  call (the network, the HTML parser, an API client, the JSON decoder).
\<close>

datatype exn =
    KeyError string
  | IndexError string
  | TypeError string
  | ValueError string
  | RuntimeError string
  | Raised string

text \<open>
  \<^verbatim>\<open>str(e)\<close>. For a KeyError it is the \<^verbatim>\<open>repr\<close> of the key: the key between single
  quotes, for a key without quotes, backslashes or control characters (the keys of
  this program are such).
\<close>

fun exn_str :: "exn \<Rightarrow> string" where
  "exn_str (KeyError k) = [CHR 0x27] @ k @ [CHR 0x27]"
| "exn_str (IndexError m) = m"
| "exn_str (TypeError m) = m"
| "exn_str (ValueError m) = m"
| "exn_str (RuntimeError m) = m"
| "exn_str (Raised m) = m"

text \<open>Truth value of an \<^verbatim>\<open>Optional[str]\<close>: \<^verbatim>\<open>None\<close> and the empty string are false.\<close>

fun str_truthy :: "string option \<Rightarrow> bool" where
  "str_truthy None = False"
| "str_truthy (Some s) = (s \<noteq> [])"

text \<open>\<^verbatim>\<open>v or d\<close> for an \<^verbatim>\<open>Optional[str]\<close> \<^verbatim>\<open>v\<close>.\<close>

definition py_or :: "string option \<Rightarrow> string \<Rightarrow> string" where
  "py_or v d = (case v of None \<Rightarrow> d | Some s \<Rightarrow> if s = [] then d else s)"

section \<open>Provider selection\<close>

text \<open>
  \<^verbatim>\<open>HAS_OPENAI\<close> and \<^verbatim>\<open>HAS_ANTHROPIC\<close> say whether the package could be imported when the
  module was loaded; \<open>environ\<close> is the process environment read by \<^verbatim>\<open>os.getenv\<close>
  (\<open>None\<close> for a variable that is not set).
\<close>

definition select_provider ::
  "bool \<Rightarrow> bool \<Rightarrow> (string \<rightharpoonup> string) \<Rightarrow> string \<Rightarrow> exn + string" where
  "select_provider HAS_OPENAI HAS_ANTHROPIC environ preferred =
     (if preferred = ''openai'' \<or>
         (preferred = ''auto'' \<and> HAS_OPENAI \<and> str_truthy (environ ''OPENAI_API_KEY''))
      then Inr ''openai''
      else if preferred = ''anthropic'' \<or>
         (preferred = ''auto'' \<and> HAS_ANTHROPIC \<and> str_truthy (environ ''ANTHROPIC_API_KEY''))
      then Inr ''anthropic''
      else Inl (RuntimeError ''No AI provider. Set OPENAI_API_KEY or ANTHROPIC_API_KEY''))"

section \<open>The data classes\<close>

record Prospect =
  name :: string
  company :: string
  role :: "string option"
  email :: "string option"
  linkedin :: "string option"
  website :: "string option"
  company_description :: "string option"
  recent_news :: "string option"
  tech_stack :: "string option"
  pain_points :: "string option"

record EmailConfig =
  sender_name :: string
  sender_company :: string
  value_prop :: string
  cta :: string
  tone :: string
  length' :: string

section \<open>The prompt\<close>

definition TEMPLATE_PROMPT :: string where
  \<open>TEMPLATE_PROMPT =
     ''Generate a cold email with these requirements:\<newline>'' @
     ''\<newline>'' @
     ''PROSPECT:\<newline>'' @
     ''- Name: {name}\<newline>'' @
     ''- Company: {company}\<newline>'' @
     ''- Role: {role}\<newline>'' @
     ''- Company Description: {company_description}\<newline>'' @
     ''- Tech Stack: {tech_stack}\<newline>'' @
     ''\<newline>'' @
     ''SENDER:\<newline>'' @
     ''- Name: {sender_name}\<newline>'' @
     ''- Company: {sender_company}\<newline>'' @
     ''- Value Proposition: {value_prop}\<newline>'' @
     ''- Desired CTA: {cta}\<newline>'' @
     ''\<newline>'' @
     ''STYLE:\<newline>'' @
     ''- Tone: {tone}\<newline>'' @
     ''- Length: {length} (short=3-4 sentences, medium=5-6 sentences)\<newline>'' @
     ''\<newline>'' @
     ''RULES:\<newline>'' @
     ''1. Personalize based on prospect's company/role\<newline>'' @
     ''2. Lead with value, not features\<newline>'' @
     ''3. One clear call-to-action\<newline>'' @
     ''4. No generic flattery ("I love your company!")\<newline>'' @
     ''5. Sound human, not templated\<newline>'' @
     ''6. Subject line should create curiosity\<newline>'' @
     ''\<newline>'' @
     ''Return JSON:\<newline>'' @
     ''{{\<newline>'' @
     ''    "subject": "Email subject line",\<newline>'' @
     ''    "body": "Full email body",\<newline>'' @
     ''    "follow_up": "Follow-up email if no response (shorter)"\<newline>'' @
     ''}}''\<close>

text \<open>
  \<^verbatim>\<open>template.format(**kwargs)\<close>, read from the left: \<^verbatim>\<open>{{\<close> and \<^verbatim>\<open>}}\<close> stand for one
  brace, \<^verbatim>\<open>{key}\<close> for the value of the keyword argument \<^verbatim>\<open>key\<close> (KeyError without
  it), a brace alone is a ValueError and \<^verbatim>\<open>{}\<close> asks for a positional argument, of
  which there is none. A field is a keyword name: the conversions, format
  specifications and attribute or index lookups of Python's fields are outside the
  model (the template has none). The state says what was read last.
\<close>

datatype format_state = Literal | AfterOpen | InField string | AfterClose

definition emit :: "string \<Rightarrow> exn + string \<Rightarrow> exn + string" where
  "emit v r = (case r of Inl e \<Rightarrow> Inl e | Inr s \<Rightarrow> Inr (v @ s))"

fun format_from :: "(string \<rightharpoonup> string) \<Rightarrow> format_state \<Rightarrow> string \<Rightarrow> exn + string" where
  "format_from kwargs Literal [] = Inr []"
| "format_from kwargs AfterOpen [] =
     Inl (ValueError ''Single '{' encountered in format string'')"
| "format_from kwargs (InField key) [] =
     Inl (ValueError ''expected '}' before end of string'')"
| "format_from kwargs AfterClose [] =
     Inl (ValueError ''Single '}' encountered in format string'')"
| "format_from kwargs Literal (c # cs) =
     (if c = CHR ''{'' then format_from kwargs AfterOpen cs
      else if c = CHR ''}'' then format_from kwargs AfterClose cs
      else emit [c] (format_from kwargs Literal cs))"
| "format_from kwargs AfterOpen (c # cs) =
     (if c = CHR ''{'' then emit ''{'' (format_from kwargs Literal cs)
      else if c = CHR ''}''
      then Inl (IndexError ''Replacement index 0 out of range for positional args tuple'')
      else format_from kwargs (InField [c]) cs)"
| "format_from kwargs (InField key) (c # cs) =
     (if c = CHR ''}''
      then (case kwargs key of
              None \<Rightarrow> Inl (KeyError key)
            | Some v \<Rightarrow> emit v (format_from kwargs Literal cs))
      else format_from kwargs (InField (key @ [c])) cs)"
| "format_from kwargs AfterClose (c # cs) =
     (if c = CHR ''}'' then emit ''}'' (format_from kwargs Literal cs)
      else Inl (ValueError ''Single '}' encountered in format string''))"

definition py_format :: "string \<Rightarrow> (string \<rightharpoonup> string) \<Rightarrow> exn + string" where
  "py_format template kwargs = format_from kwargs Literal template"

text \<open>The prompt of \<^verbatim>\<open>generate\<close>: the template, formatted with the eleven fields.\<close>

definition build_prompt :: "Prospect \<Rightarrow> EmailConfig \<Rightarrow> exn + string" where
  "build_prompt prospect config =
     py_format TEMPLATE_PROMPT (map_of
       [(''name'', name prospect),
        (''company'', company prospect),
        (''role'', py_or (role prospect) ''Unknown''),
        (''company_description'', py_or (company_description prospect) ''Unknown''),
        (''tech_stack'', py_or (tech_stack prospect) ''Unknown''),
        (''sender_name'', sender_name config),
        (''sender_company'', sender_company config),
        (''value_prop'', value_prop config),
        (''cta'', cta config),
        (''tone'', tone config),
        (''length'', length' config)])"

section \<open>The two providers\<close>

text \<open>
  A value of the decoded JSON (and of the dictionary \<^verbatim>\<open>format_email\<close> reads): a
  \<^verbatim>\<open>str\<close>, or any other object (\<^verbatim>\<open>None\<close>, a number, a list, a dictionary), given by
  the name of its type and the text \<^verbatim>\<open>str()\<close> returns for it: \<^verbatim>\<open>None\<close> is
  \<open>NonStr ''NoneType'' ''None''\<close>.
\<close>

datatype pyobj = Str string | NonStr string string

fun py_str :: "pyobj \<Rightarrow> string" where
  "py_str (Str s) = s"
| "py_str (NonStr ty r) = r"

text \<open>
  The libraries the generator calls. \<open>openai_chat prompt\<close> is the content of the first
  choice of \<^verbatim>\<open>chat.completions.create\<close> (model gpt-4o-mini, the prompt as the one
  user message, a JSON object asked for), \<open>anthropic_messages prompt\<close> is the text of
  the first content block of \<^verbatim>\<open>messages.create\<close> (model claude-3-haiku-20240307, at
  most 2048 tokens, the prompt as the one user message), and \<open>json_loads\<close> is
  \<^verbatim>\<open>json.loads\<close>; each returns its value or the exception it raises.
\<close>

record api =
  openai_chat :: "string \<Rightarrow> exn + string"
  anthropic_messages :: "string \<Rightarrow> exn + string"
  json_loads :: "string \<Rightarrow> exn + (string \<rightharpoonup> pyobj)"

definition generate_openai :: "api \<Rightarrow> string \<Rightarrow> exn + (string \<rightharpoonup> pyobj)" where
  "generate_openai lib prompt =
     (case openai_chat lib prompt of
        Inl e \<Rightarrow> Inl e
      | Inr content \<Rightarrow> json_loads lib content)"

definition generate_anthropic :: "api \<Rightarrow> string \<Rightarrow> exn + (string \<rightharpoonup> pyobj)" where
  "generate_anthropic lib prompt =
     (case anthropic_messages lib (prompt @ ''\<newline>\<newline>Respond with JSON only.'') of
        Inl e \<Rightarrow> Inl e
      | Inr content \<Rightarrow>
          (if py_in ''```'' content
           then (case py_split ''```'' content of
                   _ # part # _ \<Rightarrow> json_loads lib (py_strip (py_replace ''json'' '''' part))
                 | _ \<Rightarrow> Inl (IndexError ''list index out of range''))
           else json_loads lib content))"

record ColdEmailGenerator =
  provider :: string

definition ColdEmailGenerator_init ::
  "bool \<Rightarrow> bool \<Rightarrow> (string \<rightharpoonup> string) \<Rightarrow> string \<Rightarrow> exn + ColdEmailGenerator" where
  "ColdEmailGenerator_init HAS_OPENAI HAS_ANTHROPIC environ preferred =
     (case select_provider HAS_OPENAI HAS_ANTHROPIC environ preferred of
        Inl e \<Rightarrow> Inl e
      | Inr p \<Rightarrow> Inr \<lparr>provider = p\<rparr>)"

definition generate ::
  "api \<Rightarrow> ColdEmailGenerator \<Rightarrow> Prospect \<Rightarrow> EmailConfig \<Rightarrow> exn + (string \<rightharpoonup> pyobj)" where
  "generate lib self prospect config =
     (case build_prompt prospect config of
        Inl e \<Rightarrow> Inl e
      | Inr prompt \<Rightarrow>
          (if provider self = ''openai'' then generate_openai lib prompt
           else generate_anthropic lib prompt))"

section \<open>The output\<close>

text \<open>\<^verbatim>\<open>d[key]\<close>.\<close>

definition getitem :: "(string \<rightharpoonup> 'v) \<Rightarrow> string \<Rightarrow> exn + 'v" where
  "getitem d key = (case d key of None \<Rightarrow> Inl (KeyError key) | Some v \<Rightarrow> Inr v)"

text \<open>\<^verbatim>\<open>str(n)\<close> for a natural number: its decimal digits.\<close>

fun str_of_nat :: "nat \<Rightarrow> string" where
  "str_of_nat n =
     (if n < 10 then [char_of (48 + n)]
      else str_of_nat (n div 10) @ [char_of (48 + n mod 10)])"

declare str_of_nat.simps [simp del]

text \<open>The first item from position \<open>i\<close> on that is not a \<^verbatim>\<open>str\<close>: its position and type.\<close>

fun first_non_str :: "pyobj list \<Rightarrow> nat \<Rightarrow> (nat \<times> string) option" where
  "first_non_str [] i = None"
| "first_non_str (Str s # items) i = first_non_str items (Suc i)"
| "first_non_str (NonStr ty r # items) i = Some (i, ty)"

text \<open>
  \<^verbatim>\<open>sep.join(items)\<close> over objects: a TypeError that names the first item that is not
  a \<^verbatim>\<open>str\<close>, and the joined text when there is none.
\<close>

definition join_objects :: "string \<Rightarrow> pyobj list \<Rightarrow> exn + string" where
  "join_objects sep items =
     (case first_non_str items 0 of
        None \<Rightarrow> Inr (py_join sep (map py_str items))
      | Some (i, ty) \<Rightarrow>
          Inl (TypeError (''sequence item '' @ str_of_nat i @ '': expected str instance, '' @
                          ty @ '' found'')))"

definition format_email :: "(string \<rightharpoonup> pyobj) \<Rightarrow> Prospect \<Rightarrow> exn + string" where
  "format_email email_dict prospect =
     (case getitem email_dict ''subject'' of
        Inl e \<Rightarrow> Inl e
      | Inr subject \<Rightarrow>
     (case getitem email_dict ''body'' of
        Inl e \<Rightarrow> Inl e
      | Inr body \<Rightarrow>
          join_objects ''\<newline>''
            [Str (replicate 60 (CHR ''='')),
             Str (''TO: '' @ name prospect @ '' <'' @
                  py_or (email prospect) ''email@example.com'' @ ''>''),
             Str (''SUBJECT: '' @ py_str subject),
             Str (replicate 60 (CHR ''='')),
             Str '''',
             body,
             Str '''',
             Str (replicate 60 (CHR ''-'')),
             Str ''FOLLOW-UP (if no response after 3-5 days):'',
             Str (replicate 60 (CHR ''-'')),
             (case email_dict ''follow_up'' of None \<Rightarrow> Str ''N/A'' | Some v \<Rightarrow> v),
             Str '''']))"

section \<open>The parsed page\<close>

text \<open>
  What \<^verbatim>\<open>BeautifulSoup(text, 'html.parser')\<close> returns, as far as the program looks at
  it: a forest of tags and strings. A tag has its name (the parser gives it in lower
  case), its attribute dictionary and its contents. A string has the class the
  parser gave it: \<open>Script\<close>, \<open>Stylesheet\<close> or \<open>TemplateString\<close> for a string inside a
  \<^verbatim>\<open>script\<close>, \<^verbatim>\<open>style\<close> or \<^verbatim>\<open>template\<close> tag, and \<open>Plain\<close> (\<^verbatim>\<open>NavigableString\<close> itself or
  \<^verbatim>\<open>CData\<close>) for any other text; comments and declarations, which no \<^verbatim>\<open>get_text\<close>
  returns, are left out. The value of an attribute is its text as written in the
  page.
\<close>

datatype string_class = Plain | Script | Stylesheet | TemplateString

datatype node =
    NavigableString string_class string
  | Tag string "string \<rightharpoonup> string" "node list"

fun tag_name :: "node \<Rightarrow> string" where
  "tag_name (Tag nm attrs contents) = nm"
| "tag_name (NavigableString cl s) = []"

fun tag_attrs :: "node \<Rightarrow> (string \<rightharpoonup> string)" where
  "tag_attrs (Tag nm attrs contents) = attrs"
| "tag_attrs (NavigableString cl s) = Map.empty"

text \<open>The tags of a tree in document order, the root first.\<close>

fun tags_of :: "node \<Rightarrow> node list" where
  "tags_of (NavigableString cl s) = []"
| "tags_of (Tag nm attrs contents) = Tag nm attrs contents # concat (map tags_of contents)"

definition soup_tags :: "node list \<Rightarrow> node list" where
  "soup_tags soup = concat (map tags_of soup)"

text \<open>The strings below a node in document order, each with its class.\<close>

fun all_strings :: "node \<Rightarrow> (string_class \<times> string) list" where
  "all_strings (NavigableString cl s) = [(cl, s)]"
| "all_strings (Tag nm attrs contents) = concat (map all_strings contents)"

text \<open>
  The class of strings a tag counts as its text: a \<^verbatim>\<open>script\<close>, \<^verbatim>\<open>style\<close> or \<^verbatim>\<open>template\<close>
  tag its own class, any other tag the plain strings.
\<close>

definition interesting_string_class :: "string \<Rightarrow> string_class" where
  "interesting_string_class nm =
     (if nm = ''script'' then Script
      else if nm = ''style'' then Stylesheet
      else if nm = ''template'' then TemplateString
      else Plain)"

text \<open>
  \<^verbatim>\<open>tag.get_text()\<close> (also \<^verbatim>\<open>tag.text\<close>): the strings below the tag that are of the class
  the tag counts as text, concatenated. So the text of a section leaves out the
  scripts and styles inside it.
\<close>

fun get_text :: "node \<Rightarrow> string" where
  "get_text (NavigableString cl s) = s"
| "get_text (Tag nm attrs contents) =
     concat (map snd (filter (\<lambda>(cl, s). cl = interesting_string_class nm)
                        (all_strings (Tag nm attrs contents))))"

text \<open>
  The attribute filters of \<^verbatim>\<open>find\<close> and \<^verbatim>\<open>find_all\<close>: \<^verbatim>\<open>attrs={'name': 'description'}\<close>
  asks for that value, \<^verbatim>\<open>src=True\<close> for the attribute to be there.
\<close>

datatype attr_filter = Equals string | Present

fun attr_matches :: "node \<Rightarrow> string \<times> attr_filter \<Rightarrow> bool" where
  "attr_matches t (key, Equals v) = (tag_attrs t key = Some v)"
| "attr_matches t (key, Present) = (tag_attrs t key \<noteq> None)"

definition find_all :: "node list \<Rightarrow> string \<Rightarrow> (string \<times> attr_filter) list \<Rightarrow> node list" where
  "find_all soup nm filters =
     filter (\<lambda>t. tag_name t = nm \<and> list_all (attr_matches t) filters) (soup_tags soup)"

definition find_first :: "node list \<Rightarrow> string \<Rightarrow> (string \<times> attr_filter) list \<Rightarrow> node option" where
  "find_first soup nm filters =
     (case find_all soup nm filters of [] \<Rightarrow> None | t # _ \<Rightarrow> Some t)"

text \<open>\<^verbatim>\<open>s.split()\<close>: the maximal runs without white space (the tokens of a class attribute).\<close>

fun split_whitespace :: "string \<Rightarrow> string \<Rightarrow> string list" where
  "split_whitespace cur [] = (if cur = [] then [] else [cur])"
| "split_whitespace cur (c # cs) =
     (if py_isspace c
      then (if cur = [] then split_whitespace [] cs else cur # split_whitespace [] cs)
      else split_whitespace (cur @ [c]) cs)"

text \<open>
  The four kinds of CSS selector the program uses: \<^verbatim>\<open>#about\<close> is \<open>ById ''about''\<close>,
  \<^verbatim>\<open>.about\<close> is \<open>ByClass ''about''\<close>, \<^verbatim>\<open>[class*="about"]\<close> is
  \<open>ByAttrContains ''class'' ''about''\<close> and \<^verbatim>\<open>section\<close> is \<open>ByType ''section''\<close>.
  The class attribute is matched token by token by a class selector, and as one text
  by an attribute selector (the library joins the tokens with spaces first, which
  makes no difference to a text without white space such as \<^verbatim>\<open>about\<close>).
\<close>

datatype selector = ById string | ByClass string | ByAttrContains string string | ByType string

fun selector_matches :: "selector \<Rightarrow> node \<Rightarrow> bool" where
  "selector_matches (ById i) t = (tag_attrs t ''id'' = Some i)"
| "selector_matches (ByClass c) t =
     (case tag_attrs t ''class'' of
        None \<Rightarrow> False
      | Some v \<Rightarrow> c \<in> set (split_whitespace [] v))"
| "selector_matches (ByAttrContains key sub) t =
     (case tag_attrs t key of
        None \<Rightarrow> False
      | Some v \<Rightarrow> sub \<noteq> [] \<and> py_in sub v)"
| "selector_matches (ByType nm) t = (tag_name t = nm)"

text \<open>\<^verbatim>\<open>soup.select_one(selector)\<close>: the first tag in document order that matches.\<close>

definition select_one :: "node list \<Rightarrow> selector \<Rightarrow> node option" where
  "select_one soup sel = List.find (selector_matches sel) (soup_tags soup)"

section \<open>Researching a prospect\<close>

text \<open>The values of the dictionary \<^verbatim>\<open>research_website\<close> returns.\<close>

datatype pyval = PNone | PStr string | PList "string list"

text \<open>Truth value of what \<^verbatim>\<open>data.get(key)\<close> returns (\<^verbatim>\<open>None\<close> without the key).\<close>

fun py_truthy :: "pyval option \<Rightarrow> bool" where
  "py_truthy None = False"
| "py_truthy (Some PNone) = False"
| "py_truthy (Some (PStr s)) = (s \<noteq> [])"
| "py_truthy (Some (PList xs)) = (xs \<noteq> [])"

text \<open>
  One HTTP request as it is sent, and the world around the researcher. \<open>url_error\<close>
  is the exception the library raises for a URL it cannot prepare (no scheme, no
  host, no adapter for the scheme), before anything is sent. \<open>http_get\<close> answers one
  request that was sent: with a page (the text of the response), with a redirect to
  another URL, or with the exception raised (no connection, a timeout).
  \<open>html_parser\<close> is the parser, and \<open>list_of_set\<close> is the order in which
  \<^verbatim>\<open>list(set(xs))\<close> lists the elements (it depends on the hashes of the run).
\<close>

record request =
  req_method :: string
  req_url :: string
  req_timeout :: nat
  req_headers :: "string \<rightharpoonup> string"

datatype response = Page string | Redirect string

record web =
  url_error :: "string \<Rightarrow> exn option"
  http_get :: "request \<Rightarrow> exn + response"
  html_parser :: "string \<Rightarrow> exn + node list"
  list_of_set :: "string list \<Rightarrow> string list"

record Session =
  headers :: "string \<rightharpoonup> string"

record ProspectResearcher =
  session :: Session

text \<open>\<^verbatim>\<open>__init__\<close>: a new session (with the library's default headers) and the user agent.\<close>

definition ProspectResearcher_init :: "(string \<rightharpoonup> string) \<Rightarrow> ProspectResearcher" where
  "ProspectResearcher_init default_headers =
     \<lparr>session = \<lparr>headers =
        default_headers(''User-Agent'' \<mapsto> ''Mozilla/5.0 (compatible; EmailResearch/1.0)'')\<rparr>\<rparr>"

text \<open>
  Sending a GET and following the redirects, of which \<open>n\<close> more are allowed. Every
  request that is sent is added to the log. A redirect is followed with the same
  method, timeout and session headers; when none is allowed any more the library
  raises \<^verbatim>\<open>TooManyRedirects\<close>.
\<close>

fun send_following :: "web \<Rightarrow> Session \<Rightarrow> string \<Rightarrow> nat \<Rightarrow> nat \<Rightarrow> request list
    \<Rightarrow> (exn + string) \<times> request list" where
  "send_following w s url t n log =
     (case url_error w url of
        Some e \<Rightarrow> (Inl e, log)
      | None \<Rightarrow>
          (let r = \<lparr>req_method = ''GET'', req_url = url, req_timeout = t,
                     req_headers = headers s\<rparr>
           in (case http_get w r of
                 Inl e \<Rightarrow> (Inl e, log @ [r])
               | Inr (Page body) \<Rightarrow> (Inr body, log @ [r])
               | Inr (Redirect location) \<Rightarrow>
                   (case n of
                      0 \<Rightarrow> (Inl (Raised ''Exceeded 30 redirects.''), log @ [r])
                    | Suc m \<Rightarrow> send_following w s location t m (log @ [r])))))"

declare send_following.simps [simp del]

text \<open>
  \<^verbatim>\<open>session.get(url, timeout=t)\<close>: redirects are followed (the default of a GET), at
  most 30 of them (the default of a session).
\<close>

definition Session_get ::
  "web \<Rightarrow> Session \<Rightarrow> string \<Rightarrow> nat \<Rightarrow> request list \<Rightarrow> (exn + string) \<times> request list" where
  "Session_get w s url t log = send_following w s url t 30 log"

text \<open>The loop over the selectors (lines 85 to 92).\<close>

definition about_selectors :: "selector list" where
  "about_selectors =
     [ById ''about'', ByClass ''about'', ByAttrContains ''class'' ''about'', ByType ''section'']"

fun about_loop :: "node list \<Rightarrow> selector list \<Rightarrow> pyval" where
  "about_loop soup [] = PNone"
| "about_loop soup (sel # rest) =
     (case select_one soup sel of
        None \<Rightarrow> about_loop soup rest
      | Some elem \<Rightarrow>
          (let text = take 500 (get_text elem)
           in if List.length text > 100 then PStr text else about_loop soup rest))"

text \<open>The loop over the scripts (lines 97 to 104).\<close>

fun tech_loop :: "node list \<Rightarrow> string list \<Rightarrow> exn + string list" where
  "tech_loop [] tech_hints = Inr tech_hints"
| "tech_loop (s # scripts) tech_hints =
     (case getitem (tag_attrs s) ''src'' of
        Inl e \<Rightarrow> Inl e
      | Inr v \<Rightarrow>
          (let src = py_lower v;
               h1 = (if py_in ''react'' src then tech_hints @ [''React''] else tech_hints);
               h2 = (if py_in ''vue'' src then h1 @ [''Vue''] else h1);
               h3 = (if py_in ''angular'' src then h2 @ [''Angular''] else h2);
               h4 = (if py_in ''stripe'' src then h3 @ [''Stripe''] else h3);
               h5 = (if py_in ''intercom'' src then h4 @ [''Intercom''] else h4);
               h6 = (if py_in ''hubspot'' src then h5 @ [''HubSpot''] else h5)
           in tech_loop scripts h6))"

text \<open>The body of the \<^verbatim>\<open>try\<close> block of \<^verbatim>\<open>research_website\<close>.\<close>

definition research_website_try ::
  "web \<Rightarrow> ProspectResearcher \<Rightarrow> string \<Rightarrow> request list
     \<Rightarrow> (exn + (string \<rightharpoonup> pyval)) \<times> request list" where
  "research_website_try w self url log =
     (case Session_get w (session self) url 10 log of
        (Inl e, log') \<Rightarrow> (Inl e, log')
      | (Inr text, log') \<Rightarrow>
     (case html_parser w text of
        Inl e \<Rightarrow> (Inl e, log')
      | Inr soup \<Rightarrow>
     (case (case find_first soup ''meta'' [(''name'', Equals ''description'')] of
              None \<Rightarrow> Inr PNone
            | Some meta_desc \<Rightarrow>
                (case getitem (tag_attrs meta_desc) ''content'' of
                   Inl e \<Rightarrow> Inl e
                 | Inr v \<Rightarrow> Inr (PStr v))) of
        Inl e \<Rightarrow> (Inl e, log')
      | Inr description \<Rightarrow>
          (let title = (case find_first soup ''title'' [] of
                          None \<Rightarrow> PNone
                        | Some t \<Rightarrow> PStr (get_text t));
               about = about_loop soup about_selectors
           in (case tech_loop (find_all soup ''script'' [(''src'', Present)]) [] of
                 Inl e \<Rightarrow> (Inl e, log')
               | Inr tech_hints \<Rightarrow>
                   (Inr [''description'' \<mapsto> description,
                         ''title'' \<mapsto> title,
                         ''about'' \<mapsto> about,
                         ''tech_hints'' \<mapsto> PList (list_of_set w tech_hints)],
                    log'))))))"

text \<open>\<^verbatim>\<open>research_website\<close>: the \<^verbatim>\<open>try\<close> block, and the handler of every exception.\<close>

definition research_website ::
  "web \<Rightarrow> ProspectResearcher \<Rightarrow> string \<Rightarrow> request list
     \<Rightarrow> (string \<rightharpoonup> pyval) \<times> request list" where
  "research_website w self url log =
     (case research_website_try w self url log of
        (Inl e, log') \<Rightarrow> ([''error'' \<mapsto> PStr (exn_str e)], log')
      | (Inr d, log') \<Rightarrow> (d, log'))"

text \<open>
  \<^verbatim>\<open>research\<close>. The prospect is updated in place and returned. The description it
  stores is the string found under \<^verbatim>\<open>description\<close>, and the list it joins is the one
  found under \<^verbatim>\<open>tech_hints\<close>: \<^verbatim>\<open>research_website\<close> puts no other kind of value there.
\<close>

definition research ::
  "web \<Rightarrow> ProspectResearcher \<Rightarrow> Prospect \<Rightarrow> request list \<Rightarrow> Prospect \<times> request list" where
  "research w self prospect log =
     (case website prospect of
        None \<Rightarrow> (prospect, log)
      | Some url \<Rightarrow>
          (if url = [] then (prospect, log)
           else
             (case research_website w self url log of
                (data, log') \<Rightarrow>
                  (let p1 = (if py_truthy (data ''description'')
                             then (case data ''description'' of
                                     Some (PStr d) \<Rightarrow> prospect\<lparr>company_description := Some d\<rparr>
                                   | _ \<Rightarrow> prospect)
                             else prospect);
                       p2 = (if py_truthy (data ''tech_hints'')
                             then (case data ''tech_hints'' of
                                     Some (PList hints) \<Rightarrow>
                                       p1\<lparr>tech_stack := Some (py_join '', '' hints)\<rparr>
                                   | _ \<Rightarrow> p1)
                             else p1)
                   in (p2, log')))))"

section \<open>What the theorems speak of\<close>

text \<open>The names the loop over the scripts can add, in the order of its tests.\<close>

definition tech_vocabulary :: "string list" where
  "tech_vocabulary = [''React'', ''Vue'', ''Angular'', ''Stripe'', ''Intercom'', ''HubSpot'']"

text \<open>
  The dictionary of a page whose description was read: \<open>description\<close> is what was
  found for the meta tag and \<open>hs\<close> the list the loop over the scripts built.
\<close>

definition page_dict :: "web \<Rightarrow> node list \<Rightarrow> pyval \<Rightarrow> string list \<Rightarrow> (string \<rightharpoonup> pyval)" where
  "page_dict w soup description hs =
     [''description'' \<mapsto> description,
      ''title'' \<mapsto> (case find_first soup ''title'' [] of
                       None \<Rightarrow> PNone
                     | Some t \<Rightarrow> PStr (get_text t)),
      ''about'' \<mapsto> about_loop soup about_selectors,
      ''tech_hints'' \<mapsto> PList (list_of_set w hs)]"

text \<open>
  The text of the template with its eleven slots filled and its doubled braces
  single: what the prompt is to be compared with.
\<close>

definition prompt_text ::
  "string \<Rightarrow> string \<Rightarrow> string \<Rightarrow> string \<Rightarrow> string \<Rightarrow> string \<Rightarrow> string \<Rightarrow> string \<Rightarrow> string
     \<Rightarrow> string \<Rightarrow> string \<Rightarrow> string" where
  \<open>prompt_text p_name p_company p_role p_description p_stack
       s_name s_company s_value s_cta s_tone s_length =
     ''Generate a cold email with these requirements:\<newline>'' @
     ''\<newline>'' @
     ''PROSPECT:\<newline>'' @
     ''- Name: '' @ p_name @ ''\<newline>'' @
     ''- Company: '' @ p_company @ ''\<newline>'' @
     ''- Role: '' @ p_role @ ''\<newline>'' @
     ''- Company Description: '' @ p_description @ ''\<newline>'' @
     ''- Tech Stack: '' @ p_stack @ ''\<newline>'' @
     ''\<newline>'' @
     ''SENDER:\<newline>'' @
     ''- Name: '' @ s_name @ ''\<newline>'' @
     ''- Company: '' @ s_company @ ''\<newline>'' @
     ''- Value Proposition: '' @ s_value @ ''\<newline>'' @
     ''- Desired CTA: '' @ s_cta @ ''\<newline>'' @
     ''\<newline>'' @
     ''STYLE:\<newline>'' @
     ''- Tone: '' @ s_tone @ ''\<newline>'' @
     ''- Length: '' @ s_length @ '' (short=3-4 sentences, medium=5-6 sentences)\<newline>'' @
     ''\<newline>'' @
     ''RULES:\<newline>'' @
     ''1. Personalize based on prospect's company/role\<newline>'' @
     ''2. Lead with value, not features\<newline>'' @
     ''3. One clear call-to-action\<newline>'' @
     ''4. No generic flattery ("I love your company!")\<newline>'' @
     ''5. Sound human, not templated\<newline>'' @
     ''6. Subject line should create curiosity\<newline>'' @
     ''\<newline>'' @
     ''Return JSON:\<newline>'' @
     ''{\<newline>'' @
     ''    "subject": "Email subject line",\<newline>'' @
     ''    "body": "Full email body",\<newline>'' @
     ''    "follow_up": "Follow-up email if no response (shorter)"\<newline>'' @
     ''}''\<close>

text \<open>
  Two readings of the slot of an optional field: the placeholder for a field that is
  \<^verbatim>\<open>None\<close> or empty, and the placeholder for a field that is \<^verbatim>\<open>None\<close> only.
\<close>

definition unknown_if_falsy :: "string option \<Rightarrow> string" where
  "unknown_if_falsy v =
     (case v of None \<Rightarrow> ''Unknown'' | Some s \<Rightarrow> if s = [] then ''Unknown'' else s)"

definition unknown_if_none :: "string option \<Rightarrow> string" where
  "unknown_if_none v = (case v of None \<Rightarrow> ''Unknown'' | Some s \<Rightarrow> s)"

text \<open>
  The first element matched when the selectors are tried in their order, and the
  reading of the about text that rests on it: \<^verbatim>\<open>None\<close>, or the first 500 characters
  of the text of that element when they are more than 100.
\<close>

fun first_matched :: "node list \<Rightarrow> selector list \<Rightarrow> node option" where
  "first_matched soup [] = None"
| "first_matched soup (sel # rest) =
     (case select_one soup sel of
        None \<Rightarrow> first_matched soup rest
      | Some elem \<Rightarrow> Some elem)"

definition about_of_first_matched :: "node list \<Rightarrow> pyval \<Rightarrow> bool" where
  "about_of_first_matched soup v =
     (v = PNone \<or>
      (case first_matched soup about_selectors of
         None \<Rightarrow> False
       | Some elem \<Rightarrow>
           v = PStr (take 500 (get_text elem)) \<and>
           100 < List.length (take 500 (get_text elem))))"

text \<open>
  A page to run the researcher on: a description, a title, two scripts with a source
  and one without, a short block with the id \<^verbatim>\<open>about\<close> and a section of 120 letters
  that ends with a script.
\<close>

definition demo_soup :: "node list" where
  "demo_soup =
     [Tag ''html'' Map.empty
        [Tag ''head'' Map.empty
           [Tag ''meta'' [''name'' \<mapsto> ''description'', ''content'' \<mapsto> ''We build rockets''] [],
            Tag ''title'' Map.empty [NavigableString Plain ''Acme''],
            Tag ''script'' [''src'' \<mapsto> ''https://cdn.example.com/React.min.js''] [],
            Tag ''script'' [''src'' \<mapsto> ''https://js.stripe.com/v3/react-stripe.js''] [],
            Tag ''script'' Map.empty [NavigableString Script ''var x = 1;'']],
         Tag ''body'' Map.empty
           [Tag ''div'' [''id'' \<mapsto> ''about''] [NavigableString Plain ''Short''],
            Tag ''section'' Map.empty
              [NavigableString Plain (replicate 120 (CHR ''a'')),
               Tag ''script'' Map.empty [NavigableString Script ''track();'']]]]]"

definition demo_web :: web where
  "demo_web =
     \<lparr>url_error = \<lambda>url. None,
      http_get = \<lambda>r. Inr (Page ''<html>''),
      html_parser = \<lambda>markup. Inr demo_soup,
      list_of_set = remdups\<rparr>"

definition demo_prospect :: Prospect where
  "demo_prospect =
     \<lparr>name = ''Ann'', company = ''Acme'', role = Some '''', email = None, linkedin = None,
      website = Some ''https://acme.example'', company_description = None,
      recent_news = None, tech_stack = None, pain_points = None\<rparr>"

definition demo_config :: EmailConfig where
  "demo_config =
     \<lparr>sender_name = ''Bob'', sender_company = ''Widgets'', value_prop = ''faster builds'',
      cta = ''quick call'', tone = ''professional-friendly'', length' = ''short''\<rparr>"

section \<open>Auxiliary facts\<close>

text \<open>
  The string functions meet what Python promises of them: \<^verbatim>\<open>sub in s\<close> is the
  sublist relation, \<^verbatim>\<open>sep.join(s.split(sep))\<close> is \<^verbatim>\<open>s\<close>, and replacing a text by itself
  changes nothing.
\<close>

lemma py_in_sublist: "py_in sub s \<longleftrightarrow> sublist sub s"
  by (induction s) (auto simp: sublist_Cons_right)

lemma py_split_not_Nil: "py_split sep s \<noteq> []"
  by (induction sep s rule: py_split.induct) (auto split: list.splits)

lemma py_join_Cons: "ps \<noteq> [] \<Longrightarrow> py_join sep ((c # p) # ps) = c # py_join sep (p # ps)"
  by (cases ps) auto

lemma py_join_split: "py_join sep (py_split sep s) = s"
proof (induction sep s rule: py_split.induct)
  case (1 sep)
  then show ?case by simp
next
  case (2 sep c cs)
  show ?case
  proof (cases "sep \<noteq> [] \<and> prefix sep (c # cs)")
    case True
    then obtain rest where rest: "c # cs = sep @ rest" by (auto simp: prefix_def)
    then have d: "drop (List.length sep) (c # cs) = rest" by simp
    from 2(1) True d have ih: "py_join sep (py_split sep rest) = rest" by simp
    obtain p ps where ps: "py_split sep rest = p # ps"
      using py_split_not_Nil [of sep rest] by (cases "py_split sep rest") auto
    from True have "py_split sep (c # cs) = [] # py_split sep (drop (List.length sep) (c # cs))"
      by (subst py_split.simps(2)) simp
    with d ps have "py_split sep (c # cs) = [] # p # ps" by simp
    then have "py_join sep (py_split sep (c # cs)) = sep @ py_join sep (p # ps)" by simp
    with ih ps rest show ?thesis by simp
  next
    case False
    with 2(2) have ih: "py_join sep (py_split sep cs) = cs" by simp
    obtain p ps where ps: "py_split sep cs = p # ps"
      using py_split_not_Nil [of sep cs] by (cases "py_split sep cs") auto
    from False ps ih show ?thesis by (cases ps) auto
  qed
qed

lemma py_replace_same_aux: "new = old \<Longrightarrow> py_replace old new s = s"
proof (induction old new s rule: py_replace.induct)
  case (1 old new)
  then show ?case by simp
next
  case (2 old new c cs)
  show ?case
  proof (cases "old \<noteq> [] \<and> prefix old (c # cs)")
    case True
    then obtain rest where rest: "c # cs = old @ rest" by (auto simp: prefix_def)
    then have d: "drop (List.length old) (c # cs) = rest" by simp
    from 2(1) [OF True] 2(3) d have ih: "py_replace old new rest = rest" by simp
    from True have "py_replace old new (c # cs) =
        new @ py_replace old new (drop (List.length old) (c # cs))"
      by (subst py_replace.simps(2)) simp
    with d ih 2(3) rest show ?thesis by simp
  next
    case False
    with 2(2) 2(3) have ih: "py_replace old new cs = cs" by simp
    from False have "py_replace old new (c # cs) = c # py_replace old new cs"
      by (subst py_replace.simps(2)) auto
    with ih show ?thesis by simp
  qed
qed

lemma py_replace_same: "py_replace old old s = s"
  by (simp add: py_replace_same_aux)

text \<open>The loops and the parts of \<^verbatim>\<open>research_website\<close>.\<close>

lemma lower_vocabulary:
  "py_lower ''React'' = ''react''" "py_lower ''Vue'' = ''vue''" "py_lower ''Angular'' = ''angular''"
  "py_lower ''Stripe'' = ''stripe''" "py_lower ''Intercom'' = ''intercom''"
  "py_lower ''HubSpot'' = ''hubspot''"
  by code_simp+

lemma tech_loop_Cons:
  "tag_attrs s ''src'' = Some v \<Longrightarrow>
   tech_loop (s # scripts) acc =
     tech_loop scripts (acc @ filter (\<lambda>nm. py_in (py_lower nm) (py_lower v)) tech_vocabulary)"
  by (simp add: getitem_def tech_vocabulary_def lower_vocabulary Let_def)

lemma tech_loop_Inr:
  "\<forall>s\<in>set scripts. tag_attrs s ''src'' \<noteq> None \<Longrightarrow>
   tech_loop scripts acc =
     Inr (acc @ concat (map (\<lambda>s. filter (\<lambda>nm. py_in (py_lower nm) (py_lower (the (tag_attrs s ''src''))))
                                   tech_vocabulary) scripts))"
proof (induction scripts arbitrary: acc)
  case Nil
  then show ?case by simp
next
  case (Cons s scripts)
  then obtain v where v: "tag_attrs s ''src'' = Some v" by auto
  from Cons.prems have rest: "\<forall>s\<in>set scripts. tag_attrs s ''src'' \<noteq> None" by simp
  show ?case
    unfolding tech_loop_Cons [OF v] Cons.IH [OF rest] using v by simp
qed

lemma find_all_src:
  "s \<in> set (find_all soup ''script'' [(''src'', Present)]) \<longleftrightarrow>
   s \<in> set (soup_tags soup) \<and> tag_name s = ''script'' \<and> tag_attrs s ''src'' \<noteq> None"
  by (auto simp: find_all_def)

lemma tech_loop_scripts:
  "\<exists>hs. tech_loop (find_all soup ''script'' [(''src'', Present)]) [] = Inr hs \<and>
     (\<forall>nm. nm \<in> set hs \<longleftrightarrow>
        nm \<in> set tech_vocabulary \<and>
        (\<exists>s\<in>set (soup_tags soup). tag_name s = ''script'' \<and>
           (\<exists>v. tag_attrs s ''src'' = Some v \<and> py_in (py_lower nm) (py_lower v))))"
proof -
  let ?scripts = "find_all soup ''script'' [(''src'', Present)]"
  have "\<forall>s\<in>set ?scripts. tag_attrs s ''src'' \<noteq> None"
    by (simp add: find_all_src)
  from tech_loop_Inr [OF this, of "[]"]
  have eq: "tech_loop ?scripts [] =
     Inr (concat (map (\<lambda>s. filter (\<lambda>nm. py_in (py_lower nm) (py_lower (the (tag_attrs s ''src''))))
                                   tech_vocabulary) ?scripts))" by simp
  have "\<forall>nm. nm \<in> set (concat (map (\<lambda>s. filter (\<lambda>nm. py_in (py_lower nm) (py_lower (the (tag_attrs s ''src''))))
                                   tech_vocabulary) ?scripts)) \<longleftrightarrow>
        nm \<in> set tech_vocabulary \<and>
        (\<exists>s\<in>set (soup_tags soup). tag_name s = ''script'' \<and>
           (\<exists>v. tag_attrs s ''src'' = Some v \<and> py_in (py_lower nm) (py_lower v)))"
  proof (intro allI iffI)
    fix nm
    assume "nm \<in> set (concat (map (\<lambda>s. filter (\<lambda>nm. py_in (py_lower nm) (py_lower (the (tag_attrs s ''src''))))
                                   tech_vocabulary) ?scripts))"
    then obtain s where s: "s \<in> set ?scripts" and nm: "nm \<in> set tech_vocabulary"
      and sub: "py_in (py_lower nm) (py_lower (the (tag_attrs s ''src'')))" by auto
    from s obtain v where "s \<in> set (soup_tags soup)" "tag_name s = ''script''"
      "tag_attrs s ''src'' = Some v" by (auto simp: find_all_src)
    with nm sub show "nm \<in> set tech_vocabulary \<and>
        (\<exists>s\<in>set (soup_tags soup). tag_name s = ''script'' \<and>
           (\<exists>v. tag_attrs s ''src'' = Some v \<and> py_in (py_lower nm) (py_lower v)))" by auto
  next
    fix nm
    assume "nm \<in> set tech_vocabulary \<and>
        (\<exists>s\<in>set (soup_tags soup). tag_name s = ''script'' \<and>
           (\<exists>v. tag_attrs s ''src'' = Some v \<and> py_in (py_lower nm) (py_lower v)))"
    then obtain s v where nm: "nm \<in> set tech_vocabulary" and "s \<in> set (soup_tags soup)"
      "tag_name s = ''script''" and v: "tag_attrs s ''src'' = Some v"
      and sub: "py_in (py_lower nm) (py_lower v)" by blast
    then have "s \<in> set ?scripts" by (simp add: find_all_src)
    moreover from v sub have "py_in (py_lower nm) (py_lower (the (tag_attrs s ''src'')))" by simp
    ultimately show "nm \<in> set (concat (map (\<lambda>s. filter (\<lambda>nm. py_in (py_lower nm) (py_lower (the (tag_attrs s ''src''))))
                                   tech_vocabulary) ?scripts))"
      using nm by auto
  qed
  with eq show ?thesis by blast
qed

lemma about_loop_cases:
  "about_loop soup sels = PNone \<and>
     (\<forall>i<List.length sels.
        case select_one soup (sels ! i) of
          None \<Rightarrow> True
        | Some e \<Rightarrow> List.length (take 500 (get_text e)) \<le> 100)
   \<or> (\<exists>i<List.length sels. \<exists>elem.
        select_one soup (sels ! i) = Some elem \<and>
        about_loop soup sels = PStr (take 500 (get_text elem)) \<and>
        100 < List.length (take 500 (get_text elem)) \<and>
        (\<forall>j<i. case select_one soup (sels ! j) of
                  None \<Rightarrow> True
                | Some e \<Rightarrow> List.length (take 500 (get_text e)) \<le> 100))"
proof (induction sels)
  case Nil
  then show ?case by simp
next
  case (Cons sel rest)
  let ?rej = "\<lambda>s. case select_one soup s of
          None \<Rightarrow> True
        | Some e \<Rightarrow> List.length (take 500 (get_text e)) \<le> 100"
  show ?case
  proof (cases "?rej sel")
    case True
    then have eq: "about_loop soup (sel # rest) = about_loop soup rest"
      by (auto split: option.splits simp: Let_def)
    from Cons.IH show ?thesis
    proof
      assume a: "about_loop soup rest = PNone \<and> (\<forall>i<List.length rest. ?rej (rest ! i))"
      have "\<forall>i<List.length (sel # rest). ?rej ((sel # rest) ! i)"
      proof (intro allI impI)
        fix i assume "i < List.length (sel # rest)"
        then show "?rej ((sel # rest) ! i)" using a True by (cases i) auto
      qed
      with a eq show ?thesis by simp
    next
      assume "\<exists>i<List.length rest. \<exists>elem.
        select_one soup (rest ! i) = Some elem \<and>
        about_loop soup rest = PStr (take 500 (get_text elem)) \<and>
        100 < List.length (take 500 (get_text elem)) \<and>
        (\<forall>j<i. ?rej (rest ! j))"
      then obtain i elem where i: "i < List.length rest"
        and sel: "select_one soup (rest ! i) = Some elem"
        and res: "about_loop soup rest = PStr (take 500 (get_text elem))"
        and len: "100 < List.length (take 500 (get_text elem))"
        and before: "\<forall>j<i. ?rej (rest ! j)" by blast
      have "\<forall>j<Suc i. ?rej ((sel # rest) ! j)"
      proof (intro allI impI)
        fix j assume "j < Suc i"
        then show "?rej ((sel # rest) ! j)" using before True by (cases j) auto
      qed
      with i sel res len eq show ?thesis
        by (intro disjI2 exI [of _ "Suc i"] exI [of _ elem]) simp
    qed
  next
    case False
    then obtain elem where sel: "select_one soup sel = Some elem"
      and len: "100 < List.length (take 500 (get_text elem))"
      by (auto split: option.splits)
    then have "about_loop soup (sel # rest) = PStr (take 500 (get_text elem))"
      by (simp add: Let_def)
    with sel len show ?thesis
      by (intro disjI2 exI [of _ 0] exI [of _ elem]) simp
  qed
qed

lemma str_of_nat_5_10:
  "str_of_nat (Suc (Suc (Suc (Suc (Suc 0))))) = ''5''"
  "str_of_nat (Suc (Suc (Suc (Suc (Suc (Suc (Suc (Suc (Suc (Suc 0)))))))))) = ''10''"
  by code_simp+

text \<open>The five ways a GET with its redirects goes on.\<close>

lemma send_following_unprepared:
  "url_error w url = Some e \<Longrightarrow> send_following w s url t n log = (Inl e, log)"
  by (subst send_following.simps) simp

lemma send_following_failed:
  "url_error w url = None \<Longrightarrow>
   http_get w \<lparr>req_method = ''GET'', req_url = url, req_timeout = t, req_headers = headers s\<rparr>
     = Inl e \<Longrightarrow>
   send_following w s url t n log =
     (Inl e, log @ [\<lparr>req_method = ''GET'', req_url = url, req_timeout = t,
                      req_headers = headers s\<rparr>])"
  by (subst send_following.simps) (simp add: Let_def)

lemma send_following_page:
  "url_error w url = None \<Longrightarrow>
   http_get w \<lparr>req_method = ''GET'', req_url = url, req_timeout = t, req_headers = headers s\<rparr>
     = Inr (Page body) \<Longrightarrow>
   send_following w s url t n log =
     (Inr body, log @ [\<lparr>req_method = ''GET'', req_url = url, req_timeout = t,
                         req_headers = headers s\<rparr>])"
  by (subst send_following.simps) (simp add: Let_def)

lemma send_following_exceeded:
  "url_error w url = None \<Longrightarrow>
   http_get w \<lparr>req_method = ''GET'', req_url = url, req_timeout = t, req_headers = headers s\<rparr>
     = Inr (Redirect location) \<Longrightarrow>
   send_following w s url t 0 log =
     (Inl (Raised ''Exceeded 30 redirects.''),
      log @ [\<lparr>req_method = ''GET'', req_url = url, req_timeout = t, req_headers = headers s\<rparr>])"
  by (subst send_following.simps) (simp add: Let_def)

lemma send_following_redirected:
  "url_error w url = None \<Longrightarrow>
   http_get w \<lparr>req_method = ''GET'', req_url = url, req_timeout = t, req_headers = headers s\<rparr>
     = Inr (Redirect location) \<Longrightarrow>
   send_following w s url t (Suc m) log =
     send_following w s location t m
       (log @ [\<lparr>req_method = ''GET'', req_url = url, req_timeout = t, req_headers = headers s\<rparr>])"
  by (subst send_following.simps) (simp add: Let_def)

text \<open>
  What a GET with its redirects adds to the log: at most one request more than
  redirects are allowed, each a GET with the timeout and the headers of the
  session.
\<close>

lemma send_following_log:
  "\<exists>new. snd (send_following w s url t n log) = log @ new \<and> List.length new \<le> Suc n \<and>
     (\<forall>r\<in>set new. req_method r = ''GET'' \<and> req_timeout r = t \<and> req_headers r = headers s)"
proof (induction n arbitrary: url log)
  case 0
  let ?r = "\<lparr>req_method = ''GET'', req_url = url, req_timeout = t, req_headers = headers s\<rparr>"
  show ?case
  proof (cases "url_error w url")
    case (Some e)
    then have "snd (send_following w s url t 0 log) = log @ []"
      by (simp add: send_following_unprepared)
    then show ?thesis by (intro exI [of _ "[]"]) simp
  next
    case None
    have "snd (send_following w s url t 0 log) = log @ [?r]"
    proof (cases "http_get w ?r")
      case (Inl e)
      with None show ?thesis by (simp add: send_following_failed)
    next
      case (Inr answer)
      with None show ?thesis
        by (cases answer) (simp_all add: send_following_page send_following_exceeded)
    qed
    then show ?thesis by (intro exI [of _ "[?r]"]) simp
  qed
next
  case (Suc m)
  let ?r = "\<lparr>req_method = ''GET'', req_url = url, req_timeout = t, req_headers = headers s\<rparr>"
  show ?case
  proof (cases "url_error w url")
    case (Some e)
    then have "snd (send_following w s url t (Suc m) log) = log @ []"
      by (simp add: send_following_unprepared)
    then show ?thesis by (intro exI [of _ "[]"]) simp
  next
    case None
    show ?thesis
    proof (cases "http_get w ?r")
      case (Inl e)
      with None have "snd (send_following w s url t (Suc m) log) = log @ [?r]"
        by (simp add: send_following_failed)
      then show ?thesis by (intro exI [of _ "[?r]"]) simp
    next
      case (Inr answer)
      show ?thesis
      proof (cases answer)
        case (Page body)
        with None Inr have "snd (send_following w s url t (Suc m) log) = log @ [?r]"
          by (simp add: send_following_page)
        then show ?thesis by (intro exI [of _ "[?r]"]) simp
      next
        case (Redirect location)
        from Suc.IH [of location "log @ [?r]"]
        obtain new where new: "snd (send_following w s location t m (log @ [?r])) = (log @ [?r]) @ new"
          and len: "List.length new \<le> Suc m"
          and each: "\<forall>r\<in>set new. req_method r = ''GET'' \<and> req_timeout r = t \<and>
               req_headers r = headers s"
          by blast
        from None Inr Redirect new
        have "snd (send_following w s url t (Suc m) log) = log @ (?r # new)"
          by (simp add: send_following_redirected)
        with len each show ?thesis by (intro exI [of _ "?r # new"]) simp
      qed
    qed
  qed
qed

lemma send_following_first:
  assumes None: "url_error w url = None"
  shows "\<exists>rest. snd (send_following w s url t n log) =
     log @ \<lparr>req_method = ''GET'', req_url = url, req_timeout = t, req_headers = headers s\<rparr> # rest"
proof -
  let ?r = "\<lparr>req_method = ''GET'', req_url = url, req_timeout = t, req_headers = headers s\<rparr>"
  show ?thesis
  proof (cases "http_get w ?r")
    case (Inl e)
    with None show ?thesis by (simp add: send_following_failed)
  next
    case (Inr answer)
    show ?thesis
    proof (cases answer)
      case (Page body)
      with None Inr show ?thesis by (simp add: send_following_page)
    next
      case (Redirect location)
      show ?thesis
      proof (cases n)
        case 0
        with None Inr Redirect show ?thesis by (simp add: send_following_exceeded)
      next
        case (Suc m)
        from send_following_log [of w s location t m "log @ [?r]"]
        obtain new where "snd (send_following w s location t m (log @ [?r])) = (log @ [?r]) @ new"
          by blast
        with None Inr Redirect Suc show ?thesis by (simp add: send_following_redirected)
      qed
    qed
  qed
qed

lemma send_following_once:
  assumes None: "url_error w url = None"
    and answered: "\<forall>location. http_get w \<lparr>req_method = ''GET'', req_url = url, req_timeout = t,
        req_headers = headers s\<rparr> \<noteq> Inr (Redirect location)"
  shows "snd (send_following w s url t n log) =
     log @ [\<lparr>req_method = ''GET'', req_url = url, req_timeout = t, req_headers = headers s\<rparr>]"
proof -
  let ?r = "\<lparr>req_method = ''GET'', req_url = url, req_timeout = t, req_headers = headers s\<rparr>"
  show ?thesis
  proof (cases "http_get w ?r")
    case (Inl e)
    with None show ?thesis by (simp add: send_following_failed)
  next
    case (Inr answer)
    with answered obtain body where "answer = Page body" by (cases answer) auto
    with None Inr show ?thesis by (simp add: send_following_page)
  qed
qed

lemma research_website_try_log:
  "snd (research_website_try w self url log) = snd (Session_get w (session self) url 10 log)"
  by (cases "Session_get w (session self) url 10 log")
     (auto simp: research_website_try_def Let_def split: sum.splits option.splits)

lemma research_website_log:
  "snd (research_website w self url log) = snd (research_website_try w self url log)"
  by (cases "research_website_try w self url log")
     (auto simp: research_website_def split: sum.splits)

lemma research_website_fst:
  "fst (research_website w self url log) =
     (case fst (research_website_try w self url log) of
        Inl e \<Rightarrow> [''error'' \<mapsto> PStr (exn_str e)]
      | Inr d \<Rightarrow> d)"
  by (cases "research_website_try w self url log")
     (auto simp: research_website_def split: sum.splits)

lemma try_fetch_failed:
  "fst (Session_get w (session self) url 10 log) = Inl e \<Longrightarrow>
   fst (research_website_try w self url log) = Inl e"
  by (cases "Session_get w (session self) url 10 log")
     (auto simp: research_website_try_def)

lemma try_parse_failed:
  "fst (Session_get w (session self) url 10 log) = Inr text \<Longrightarrow> html_parser w text = Inl e \<Longrightarrow>
   fst (research_website_try w self url log) = Inl e"
  by (cases "Session_get w (session self) url 10 log")
     (auto simp: research_website_try_def)

lemma try_page:
  assumes "fst (Session_get w (session self) url 10 log) = Inr text"
    and "html_parser w text = Inr soup"
    and "tech_loop (find_all soup ''script'' [(''src'', Present)]) [] = Inr hs"
  shows "fst (research_website_try w self url log) =
     (case find_first soup ''meta'' [(''name'', Equals ''description'')] of
        None \<Rightarrow> Inr (page_dict w soup PNone hs)
      | Some meta_desc \<Rightarrow>
          (case tag_attrs meta_desc ''content'' of
             None \<Rightarrow> Inl (KeyError ''content'')
           | Some v \<Rightarrow> Inr (page_dict w soup (PStr v) hs)))"
  using assms
  by (cases "Session_get w (session self) url 10 log")
     (auto simp: research_website_try_def page_dict_def getitem_def Let_def split: option.splits)

lemma dom_page_dict:
  "dom (page_dict w soup d hs) = {''description'', ''title'', ''about'', ''tech_hints''}"
  by (auto simp: page_dict_def)

lemma try_Inr_dom:
  assumes "fst (research_website_try w self url log) = Inr d"
  shows "dom d = {''description'', ''title'', ''about'', ''tech_hints''}"
proof -
  from assms obtain page where fetch: "fst (Session_get w (session self) url 10 log) = Inr page"
    by (cases "fst (Session_get w (session self) url 10 log)") (auto dest: try_fetch_failed)
  from assms fetch obtain soup where parse: "html_parser w page = Inr soup"
    by (cases "html_parser w page") (auto dest: try_parse_failed)
  obtain hs where hs: "tech_loop (find_all soup ''script'' [(''src'', Present)]) [] = Inr hs"
    using tech_loop_scripts by blast
  from assms have "\<exists>desc. d = page_dict w soup desc hs"
    unfolding try_page [OF fetch parse hs] by (auto split: option.splits)
  then obtain desc where "d = page_dict w soup desc hs" ..
  then show ?thesis by (simp only: dom_page_dict)
qed

text \<open>
  The prompt for any prospect and configuration: formatting the template puts each
  field in its slot and turns the doubled braces into single ones.
\<close>

lemma build_prompt_text:
  "build_prompt prospect config =
     Inr (prompt_text (name prospect) (company prospect)
            (py_or (role prospect) ''Unknown'')
            (py_or (company_description prospect) ''Unknown'')
            (py_or (tech_stack prospect) ''Unknown'')
            (sender_name config) (sender_company config) (value_prop config)
            (cta config) (tone config) (length' config))"
  by (simp add: build_prompt_def py_format_def TEMPLATE_PROMPT_def prompt_text_def emit_def)

lemma py_or_unknown: "py_or v ''Unknown'' = unknown_if_falsy v"
  by (simp add: py_or_def unknown_if_falsy_def)

section \<open>The claims\<close>

text \<open>
  Claim C1 (the parser of the Anthropic answer). The claim: an answer that is one
  JSON object, in a code fence or not, is decoded to the dictionary of that object,
  with every \<^verbatim>\<open>json\<close> inside its values kept. The code removes every \<^verbatim>\<open>json\<close> of the
  fenced text, not only the language tag: for the fenced object
  \<^verbatim>\<open>{"subject": "json tips"}\<close> the decoder is handed \<^verbatim>\<open>{"subject": " tips"}\<close>.
\<close>

theorem generate_anthropic_drops_json_in_values:
  \<open>generate_anthropic
     (lib\<lparr>anthropic_messages :=
        \<lambda>prompt. Inr ''```json\<newline>{"subject": "json tips"}\<newline>```''\<rparr>) prompt
   = json_loads lib ''{"subject": " tips"}''\<close>
  by (simp add: generate_anthropic_def py_strip_def py_isspace_def)

text \<open>
  The same parser on an answer without a fence around it whose value holds a fenced
  piece: the decoder is handed the piece, not the object.
\<close>

theorem generate_anthropic_unfenced:
  \<open>generate_anthropic
     (lib\<lparr>anthropic_messages :=
        \<lambda>prompt. Inr ''{"body": "Use ```pip install x``` today"}''\<rparr>) prompt
   = json_loads lib ''pip install x''\<close>
  by (simp add: generate_anthropic_def py_strip_def py_isspace_def)

text \<open>
  Claim C2 (provider selection), as amended. The overrides \<^verbatim>\<open>openai\<close> and
  \<^verbatim>\<open>anthropic\<close> are returned whatever the environment; with \<^verbatim>\<open>auto\<close> the provider is
  \<^verbatim>\<open>openai\<close> exactly when the openai package was imported and \<^verbatim>\<open>OPENAI_API_KEY\<close> is
  set to a non-empty value, otherwise \<^verbatim>\<open>anthropic\<close> exactly when the anthropic package
  was imported and \<^verbatim>\<open>ANTHROPIC_API_KEY\<close> is set to a non-empty value, otherwise a
  RuntimeError is raised.
\<close>

theorem select_provider_cases:
  "select_provider HAS_OPENAI HAS_ANTHROPIC environ ''openai'' = Inr ''openai'' \<and>
   select_provider HAS_OPENAI HAS_ANTHROPIC environ ''anthropic'' = Inr ''anthropic'' \<and>
   select_provider HAS_OPENAI HAS_ANTHROPIC environ ''auto'' =
     (if HAS_OPENAI \<and> environ ''OPENAI_API_KEY'' \<noteq> None \<and> environ ''OPENAI_API_KEY'' \<noteq> Some ''''
      then Inr ''openai''
      else if HAS_ANTHROPIC \<and> environ ''ANTHROPIC_API_KEY'' \<noteq> None
                \<and> environ ''ANTHROPIC_API_KEY'' \<noteq> Some ''''
      then Inr ''anthropic''
      else Inl (RuntimeError ''No AI provider. Set OPENAI_API_KEY or ANTHROPIC_API_KEY''))"
  by (cases "environ ''OPENAI_API_KEY''"; cases "environ ''ANTHROPIC_API_KEY''")
     (simp_all add: select_provider_def)

text \<open>
  The theorem of C2 at an environment with both keys, with and without the openai
  package.
\<close>

theorem select_provider_cases_witness:
  "select_provider True True [''OPENAI_API_KEY'' \<mapsto> ''sk-1'', ''ANTHROPIC_API_KEY'' \<mapsto> ''sk-2''] ''auto''
     = Inr ''openai'' \<and>
   select_provider False True [''OPENAI_API_KEY'' \<mapsto> ''sk-1'', ''ANTHROPIC_API_KEY'' \<mapsto> ''sk-2''] ''auto''
     = Inr ''anthropic''"
  using select_provider_cases [of True True "[''OPENAI_API_KEY'' \<mapsto> ''sk-1'', ''ANTHROPIC_API_KEY'' \<mapsto> ''sk-2'']"]
        select_provider_cases [of False True "[''OPENAI_API_KEY'' \<mapsto> ''sk-1'', ''ANTHROPIC_API_KEY'' \<mapsto> ''sk-2'']"]
  by simp

text \<open>
  Claim C2 as stated (the variable being set decides) fails: with the key set and
  the openai package missing nothing is selected, and a key set to the empty string
  does not select its provider.
\<close>

theorem select_provider_env_counterexample:
  "[''OPENAI_API_KEY'' \<mapsto> ''sk-1''] ''OPENAI_API_KEY'' = Some ''sk-1'' \<and>
   select_provider False False [''OPENAI_API_KEY'' \<mapsto> ''sk-1''] ''auto''
     = Inl (RuntimeError ''No AI provider. Set OPENAI_API_KEY or ANTHROPIC_API_KEY'') \<and>
   [''OPENAI_API_KEY'' \<mapsto> '''', ''ANTHROPIC_API_KEY'' \<mapsto> ''sk-2''] ''OPENAI_API_KEY'' = Some '''' \<and>
   select_provider True True [''OPENAI_API_KEY'' \<mapsto> '''', ''ANTHROPIC_API_KEY'' \<mapsto> ''sk-2''] ''auto''
     = Inr ''anthropic''"
  by (simp add: select_provider_def)

text \<open>
  Claim C3 (the prompt), as amended. For every prospect and configuration,
  \<^verbatim>\<open>generate\<close> sends its provider the text of \<^verbatim>\<open>TEMPLATE_PROMPT\<close> with the eleven slots
  filled: \<^verbatim>\<open>name\<close> and \<^verbatim>\<open>company\<close> and the six fields of the sender as they are, and
  each of \<^verbatim>\<open>role\<close>, \<^verbatim>\<open>company_description\<close> and \<^verbatim>\<open>tech_stack\<close> as it is unless it is
  \<^verbatim>\<open>None\<close> or the empty string, for which \<^verbatim>\<open>Unknown\<close> is put in its slot.
\<close>

theorem generate_prompt:
  "build_prompt prospect config =
     Inr (prompt_text (name prospect) (company prospect)
            (unknown_if_falsy (role prospect))
            (unknown_if_falsy (company_description prospect))
            (unknown_if_falsy (tech_stack prospect))
            (sender_name config) (sender_company config) (value_prop config)
            (cta config) (tone config) (length' config)) \<and>
   generate lib self prospect config =
     (if provider self = ''openai''
      then generate_openai lib
             (prompt_text (name prospect) (company prospect)
                (unknown_if_falsy (role prospect))
                (unknown_if_falsy (company_description prospect))
                (unknown_if_falsy (tech_stack prospect))
                (sender_name config) (sender_company config) (value_prop config)
                (cta config) (tone config) (length' config))
      else generate_anthropic lib
             (prompt_text (name prospect) (company prospect)
                (unknown_if_falsy (role prospect))
                (unknown_if_falsy (company_description prospect))
                (unknown_if_falsy (tech_stack prospect))
                (sender_name config) (sender_company config) (value_prop config)
                (cta config) (tone config) (length' config)))"
  by (simp only: generate_def build_prompt_text py_or_unknown sum.case)

text \<open>
  The theorem of C3 on the example prospect, whose role is the empty string and
  whose description and stack are \<^verbatim>\<open>None\<close>.
\<close>

theorem generate_prompt_witness:
  "build_prompt demo_prospect demo_config =
     Inr (prompt_text ''Ann'' ''Acme'' ''Unknown'' ''Unknown'' ''Unknown''
            ''Bob'' ''Widgets'' ''faster builds'' ''quick call'' ''professional-friendly''
            ''short'')"
  using generate_prompt [of demo_prospect demo_config]
  by (simp add: demo_prospect_def demo_config_def unknown_if_falsy_def)

text \<open>
  Claim C3 as stated (the fields fill the slots, and \<^verbatim>\<open>Unknown\<close> stands for a field
  that is \<^verbatim>\<open>None\<close>) fails on a prospect whose role is the empty string: its slot
  holds \<^verbatim>\<open>Unknown\<close>, not the role.
\<close>

theorem generate_prompt_empty_role:
  "role demo_prospect = Some '''' \<and>
   build_prompt demo_prospect demo_config \<noteq>
     Inr (prompt_text (name demo_prospect) (company demo_prospect)
            (unknown_if_none (role demo_prospect))
            (unknown_if_none (company_description demo_prospect))
            (unknown_if_none (tech_stack demo_prospect))
            (sender_name demo_config) (sender_company demo_config) (value_prop demo_config)
            (cta demo_config) (tone demo_config) (length' demo_config))"
  by (simp add: build_prompt_text py_or_def unknown_if_none_def demo_prospect_def
        demo_config_def prompt_text_def)



text \<open>
  Claim C5 (description and title). The claim: a page with a meta description tag,
  with or without a \<^verbatim>\<open>content\<close> attribute, yields the dictionary of four keys. On a
  page whose meta description tag has no \<^verbatim>\<open>content\<close> attribute the code returns the
  error dictionary of the KeyError instead, and the title is lost with it.
\<close>

theorem research_website_meta_without_content:
  "fst (research_website
      \<lparr>url_error = \<lambda>url. None,
       http_get = \<lambda>r. Inr (Page ''<meta name=description><title>Acme</title>''),
       html_parser = \<lambda>markup. Inr
         [Tag ''meta'' [''name'' \<mapsto> ''description''] [],
          Tag ''title'' Map.empty [NavigableString Plain ''Acme'']],
       list_of_set = remdups\<rparr>
      (ProspectResearcher_init Map.empty) ''https://acme.example'' [])
   = [''error'' \<mapsto> PStr (CHR 0x27 # ''content'' @ [CHR 0x27])]"
  by (simp add: research_website_def research_website_try_def Session_get_def
        send_following_page find_first_def find_all_def soup_tags_def getitem_def
        ProspectResearcher_init_def)

text \<open>
  Claim C6 (the about text), as amended. For a page that was fetched and parsed, the
  value under \<^verbatim>\<open>about\<close> is \<^verbatim>\<open>None\<close>, and then for every one of the four selectors
  \<^verbatim>\<open>select_one\<close> found nothing or a text of at most 100 characters; or it is the first
  500 characters of the text of the element \<^verbatim>\<open>select_one\<close> returns for one of the
  selectors, these characters are more than 100 and at most 500, and for every
  selector before that one \<^verbatim>\<open>select_one\<close> found nothing or a text of at most 100
  characters: a selector whose first match is too short is passed over and the next
  one is tried.
\<close>

theorem about_text:
  assumes "fst (Session_get w (session self) url 10 log) = Inr page"
    and "html_parser w page = Inr soup"
    and "fst (research_website w self url log) ''about'' = Some about"
  shows "about = PNone \<and>
      (\<forall>i<List.length about_selectors.
         case select_one soup (about_selectors ! i) of
           None \<Rightarrow> True
         | Some e \<Rightarrow> List.length (take 500 (get_text e)) \<le> 100) \<or>
    (\<exists>i<List.length about_selectors. \<exists>elem.
        select_one soup (about_selectors ! i) = Some elem \<and>
        about = PStr (take 500 (get_text elem)) \<and>
        100 < List.length (take 500 (get_text elem)) \<and>
        List.length (take 500 (get_text elem)) \<le> 500 \<and>
        (\<forall>j<i. case select_one soup (about_selectors ! j) of
                  None \<Rightarrow> True
                | Some e \<Rightarrow> List.length (take 500 (get_text e)) \<le> 100))"
proof -
  obtain hs where hs: "tech_loop (find_all soup ''script'' [(''src'', Present)]) [] = Inr hs"
    using tech_loop_scripts by blast
  from assms(3) have "about = about_loop soup about_selectors"
    unfolding research_website_fst try_page [OF assms(1) assms(2) hs]
    by (auto split: option.splits if_splits simp: page_dict_def)
  with about_loop_cases [of soup about_selectors] show ?thesis by auto
qed

text \<open>
  The theorem of C6 on the example page: the block with the id \<^verbatim>\<open>about\<close> is too
  short, and the 120 letters of the section are taken (without its script).
\<close>

theorem about_text_witness:
  "fst (research_website demo_web (ProspectResearcher_init Map.empty) ''https://acme.example'' [])
     ''about'' = Some (PStr (replicate 120 (CHR ''a''))) \<and>
   (PStr (replicate 120 (CHR ''a'')) = PNone \<and>
      (\<forall>i<List.length about_selectors.
         case select_one demo_soup (about_selectors ! i) of
           None \<Rightarrow> True
         | Some e \<Rightarrow> List.length (take 500 (get_text e)) \<le> 100) \<or>
    (\<exists>i<List.length about_selectors. \<exists>elem.
        select_one demo_soup (about_selectors ! i) = Some elem \<and>
        PStr (replicate 120 (CHR ''a'')) = PStr (take 500 (get_text elem)) \<and>
        100 < List.length (take 500 (get_text elem)) \<and>
        List.length (take 500 (get_text elem)) \<le> 500 \<and>
        (\<forall>j<i. case select_one demo_soup (about_selectors ! j) of
                  None \<Rightarrow> True
                | Some e \<Rightarrow> List.length (take 500 (get_text e)) \<le> 100)))"
proof -
  have fetch: "fst (Session_get demo_web (session (ProspectResearcher_init Map.empty))
      ''https://acme.example'' 10 []) = Inr ''<html>''"
    by (simp add: Session_get_def send_following_page demo_web_def)
  have parse: "html_parser demo_web ''<html>'' = Inr demo_soup"
    by (simp add: demo_web_def)
  have about: "fst (research_website demo_web (ProspectResearcher_init Map.empty)
      ''https://acme.example'' []) ''about'' = Some (PStr (replicate 120 (CHR ''a'')))"
    by code_simp
  note r = about_text [OF fetch parse about]
  show ?thesis
    by (intro conjI) (rule about, rule r)
qed

text \<open>
  Claim C6 as stated (the text of the first element matched, accepted only if it is
  longer than 100 characters) fails on the example page: the first element matched
  is the block with the id \<^verbatim>\<open>about\<close>, whose text is too short, and yet the value
  under \<^verbatim>\<open>about\<close> is not \<^verbatim>\<open>None\<close> but the text of the section.
\<close>

theorem about_not_of_first_matched:
  "map_option get_text (first_matched demo_soup about_selectors) = Some ''Short'' \<and>
   fst (research_website demo_web (ProspectResearcher_init Map.empty) ''https://acme.example'' [])
     ''about'' = Some (PStr (replicate 120 (CHR ''a''))) \<and>
   \<not> about_of_first_matched demo_soup (PStr (replicate 120 (CHR ''a'')))"
proof -
  have first: "first_matched demo_soup about_selectors =
      Some (Tag ''div'' [''id'' \<mapsto> ''about''] [NavigableString Plain ''Short''])"
    by (simp add: about_selectors_def select_one_def soup_tags_def demo_soup_def)
  have short: "get_text (Tag ''div'' [''id'' \<mapsto> ''about''] [NavigableString Plain ''Short''])
      = ''Short''"
    by (simp add: interesting_string_class_def)
  have about: "fst (research_website demo_web (ProspectResearcher_init Map.empty)
      ''https://acme.example'' []) ''about'' = Some (PStr (replicate 120 (CHR ''a'')))"
    by code_simp
  have "\<not> about_of_first_matched demo_soup (PStr (replicate 120 (CHR ''a'')))"
    unfolding about_of_first_matched_def first by (simp add: short)
  with first short about show ?thesis by simp
qed

text \<open>
  Claim C7 (the GET), as amended. Whatever the page and the answer, the requests
  \<^verbatim>\<open>research_website\<close> of a researcher as \<^verbatim>\<open>__init__\<close> made it sends are those of one
  call \<^verbatim>\<open>session.get(url, timeout=10)\<close>. Each of them is a GET with a timeout of 10
  seconds and the fixed user agent, and there are at most 31. None is sent for a URL
  that cannot be prepared; otherwise the first goes to the URL, and it is the only
  one unless it is answered by a redirect; a redirect to a place that can be
  prepared is followed by a GET of that place.
\<close>

theorem research_website_requests:
  "\<exists>new.
     snd (research_website w (ProspectResearcher_init default_headers) url log) = log @ new \<and>
     snd (research_website w (ProspectResearcher_init default_headers) url log) =
       snd (Session_get w (session (ProspectResearcher_init default_headers)) url 10 log) \<and>
     List.length new \<le> 31 \<and>
     (\<forall>r\<in>set new. req_method r = ''GET'' \<and> req_timeout r = 10 \<and>
        req_headers r ''User-Agent'' = Some ''Mozilla/5.0 (compatible; EmailResearch/1.0)'') \<and>
     (url_error w url \<noteq> None \<longrightarrow> new = []) \<and>
     (url_error w url = None \<longrightarrow>
        (\<exists>rest. new =
           \<lparr>req_method = ''GET'', req_url = url, req_timeout = 10,
            req_headers = default_headers(''User-Agent'' \<mapsto>
              ''Mozilla/5.0 (compatible; EmailResearch/1.0)'')\<rparr> # rest)) \<and>
     (url_error w url = None \<longrightarrow>
      (\<forall>location. http_get w
           \<lparr>req_method = ''GET'', req_url = url, req_timeout = 10,
            req_headers = default_headers(''User-Agent'' \<mapsto>
              ''Mozilla/5.0 (compatible; EmailResearch/1.0)'')\<rparr> \<noteq> Inr (Redirect location)) \<longrightarrow>
        new =
          [\<lparr>req_method = ''GET'', req_url = url, req_timeout = 10,
            req_headers = default_headers(''User-Agent'' \<mapsto>
              ''Mozilla/5.0 (compatible; EmailResearch/1.0)'')\<rparr>]) \<and>
     (\<forall>location. url_error w url = None \<longrightarrow>
        http_get w
           \<lparr>req_method = ''GET'', req_url = url, req_timeout = 10,
            req_headers = default_headers(''User-Agent'' \<mapsto>
              ''Mozilla/5.0 (compatible; EmailResearch/1.0)'')\<rparr> = Inr (Redirect location) \<longrightarrow>
        url_error w location = None \<longrightarrow>
        (\<exists>rest. new =
           \<lparr>req_method = ''GET'', req_url = url, req_timeout = 10,
            req_headers = default_headers(''User-Agent'' \<mapsto>
              ''Mozilla/5.0 (compatible; EmailResearch/1.0)'')\<rparr> #
           \<lparr>req_method = ''GET'', req_url = location, req_timeout = 10,
            req_headers = default_headers(''User-Agent'' \<mapsto>
              ''Mozilla/5.0 (compatible; EmailResearch/1.0)'')\<rparr> # rest))"
proof -
  let ?agent = "''Mozilla/5.0 (compatible; EmailResearch/1.0)''"
  let ?self = "ProspectResearcher_init default_headers"
  let ?s = "session ?self"
  let ?r = "\<lparr>req_method = ''GET'', req_url = url, req_timeout = 10,
            req_headers = default_headers(''User-Agent'' \<mapsto> ?agent)\<rparr>"
  have hs: "headers ?s = default_headers(''User-Agent'' \<mapsto> ?agent)"
    by (simp add: ProspectResearcher_init_def)
  have same: "snd (research_website w ?self url log) = snd (Session_get w ?s url 10 log)"
    by (simp only: research_website_log research_website_try_log)
  have get: "snd (Session_get w ?s url 10 log) = snd (send_following w ?s url 10 30 log)"
    by (simp only: Session_get_def)
  from send_following_log [of w ?s url 10 30 log]
  obtain new where new: "snd (send_following w ?s url 10 30 log) = log @ new"
    and len: "List.length new \<le> 31"
    and each: "\<forall>r\<in>set new. req_method r = ''GET'' \<and> req_timeout r = 10 \<and>
        req_headers r = headers ?s"
    by auto
  from each hs have agent: "\<forall>r\<in>set new. req_method r = ''GET'' \<and> req_timeout r = 10 \<and>
        req_headers r ''User-Agent'' = Some ?agent"
    by simp
  have none: "url_error w url \<noteq> None \<longrightarrow> new = []"
  proof
    assume "url_error w url \<noteq> None"
    then obtain e where "url_error w url = Some e" by auto
    from send_following_unprepared [OF this, of ?s 10 30 log] new show "new = []" by simp
  qed
  have first: "url_error w url = None \<longrightarrow> (\<exists>rest. new = ?r # rest)"
  proof
    assume "url_error w url = None"
    from send_following_first [OF this, of ?s 10 30 log] new hs
    show "\<exists>rest. new = ?r # rest" by simp
  qed
  have once: "url_error w url = None \<longrightarrow>
      (\<forall>location. http_get w ?r \<noteq> Inr (Redirect location)) \<longrightarrow> new = [?r]"
  proof (intro impI)
    assume a: "url_error w url = None"
      and b: "\<forall>location. http_get w ?r \<noteq> Inr (Redirect location)"
    from b hs have "\<forall>location. http_get w \<lparr>req_method = ''GET'', req_url = url, req_timeout = 10,
        req_headers = headers ?s\<rparr> \<noteq> Inr (Redirect location)" by simp
    from send_following_once [OF a this, of 30 log] new hs show "new = [?r]" by simp
  qed
  have followed: "\<forall>location. url_error w url = None \<longrightarrow>
      http_get w ?r = Inr (Redirect location) \<longrightarrow> url_error w location = None \<longrightarrow>
      (\<exists>rest. new = ?r #
         \<lparr>req_method = ''GET'', req_url = location, req_timeout = 10,
          req_headers = default_headers(''User-Agent'' \<mapsto> ?agent)\<rparr> # rest)"
  proof (intro allI impI)
    fix location
    assume a: "url_error w url = None"
      and b: "http_get w ?r = Inr (Redirect location)"
      and c: "url_error w location = None"
    let ?r2 = "\<lparr>req_method = ''GET'', req_url = location, req_timeout = 10,
          req_headers = default_headers(''User-Agent'' \<mapsto> ?agent)\<rparr>"
    from b hs have b': "http_get w \<lparr>req_method = ''GET'', req_url = url, req_timeout = 10,
        req_headers = headers ?s\<rparr> = Inr (Redirect location)" by simp
    have thirty: "(30::nat) = Suc 29" by simp
    have "send_following w ?s url 10 30 log =
        send_following w ?s location 10 29
          (log @ [\<lparr>req_method = ''GET'', req_url = url, req_timeout = 10,
                    req_headers = headers ?s\<rparr>])"
      unfolding thirty by (rule send_following_redirected [OF a b'])
    moreover from send_following_first [OF c, of ?s 10 29
        "log @ [\<lparr>req_method = ''GET'', req_url = url, req_timeout = 10,
                  req_headers = headers ?s\<rparr>]"]
    obtain rest where "snd (send_following w ?s location 10 29
        (log @ [\<lparr>req_method = ''GET'', req_url = url, req_timeout = 10,
                  req_headers = headers ?s\<rparr>])) =
        (log @ [\<lparr>req_method = ''GET'', req_url = url, req_timeout = 10,
                  req_headers = headers ?s\<rparr>]) @
        \<lparr>req_method = ''GET'', req_url = location, req_timeout = 10,
         req_headers = headers ?s\<rparr> # rest" by blast
    ultimately have "log @ new = log @ ?r # ?r2 # rest"
      using new hs by simp
    then show "\<exists>rest. new = ?r # ?r2 # rest" by simp
  qed
  from same get new have total: "snd (research_website w ?self url log) = log @ new" by simp
  show ?thesis
    by (rule exI [of _ new], intro conjI)
       (rule total, rule same, rule len, rule agent, rule none, rule first, rule once,
        rule followed)
qed

text \<open>
  The theorem of C7 on the example page, which is answered at once: one request, from
  an empty log and no default headers.
\<close>

theorem research_website_requests_witness:
  "snd (research_website demo_web (ProspectResearcher_init Map.empty) ''https://acme.example'' []) =
     [\<lparr>req_method = ''GET'', req_url = ''https://acme.example'', req_timeout = 10,
       req_headers = [''User-Agent'' \<mapsto> ''Mozilla/5.0 (compatible; EmailResearch/1.0)'']\<rparr>]"
proof -
  let ?r = "\<lparr>req_method = ''GET'', req_url = ''https://acme.example'', req_timeout = 10,
       req_headers = [''User-Agent'' \<mapsto> ''Mozilla/5.0 (compatible; EmailResearch/1.0)'']\<rparr>"
  have prepared: "url_error demo_web ''https://acme.example'' = None"
    by (simp add: demo_web_def)
  have answered: "\<forall>location. http_get demo_web ?r \<noteq> Inr (Redirect location)"
    by (simp add: demo_web_def)
  show ?thesis
    using research_website_requests [of demo_web Map.empty "''https://acme.example''" "[]"]
      prepared answered
    by (elim exE conjE) simp
qed

text \<open>
  Claim C7 as stated (exactly one GET for every URL) fails: a URL that is answered
  by a redirect gets two requests, the second to the new place, and a URL without a
  scheme gets none.
\<close>

theorem research_website_two_gets_or_none:
  "snd (research_website
      (demo_web\<lparr>http_get := \<lambda>r. if req_url r = ''http://acme.example''
                                    then Inr (Redirect ''https://acme.example/'')
                                    else Inr (Page ''<html>'')\<rparr>)
      (ProspectResearcher_init Map.empty) ''http://acme.example'' []) =
     [\<lparr>req_method = ''GET'', req_url = ''http://acme.example'', req_timeout = 10,
       req_headers = [''User-Agent'' \<mapsto> ''Mozilla/5.0 (compatible; EmailResearch/1.0)'']\<rparr>,
      \<lparr>req_method = ''GET'', req_url = ''https://acme.example/'', req_timeout = 10,
       req_headers = [''User-Agent'' \<mapsto> ''Mozilla/5.0 (compatible; EmailResearch/1.0)'']\<rparr>] \<and>
   snd (research_website
      (demo_web\<lparr>url_error := \<lambda>url. if url = ''acme.example''
                                      then Some (Raised ''Invalid URL 'acme.example': No scheme supplied. Perhaps you meant https://acme.example?'')
                                      else None\<rparr>)
      (ProspectResearcher_init Map.empty) ''acme.example'' []) = []"
  by (simp add: research_website_log research_website_try_log Session_get_def
        send_following_unprepared send_following_page send_following_redirected
        ProspectResearcher_init_def demo_web_def numeral_eq_Suc)

text \<open>
  Claim C8 (errors as values). \<^verbatim>\<open>research_website\<close> returns a dictionary in every
  case: when the GET, the parser or the extraction raises, the dictionary has the
  one key \<^verbatim>\<open>error\<close> with the message of the exception, and otherwise its keys are
  exactly \<^verbatim>\<open>description\<close>, \<^verbatim>\<open>title\<close>, \<^verbatim>\<open>about\<close> and \<^verbatim>\<open>tech_hints\<close>.
\<close>

theorem research_website_total:
  "(\<forall>e. fst (Session_get w (session self) url 10 log) = Inl e \<longrightarrow>
        fst (research_website w self url log) = [''error'' \<mapsto> PStr (exn_str e)]) \<and>
   (\<forall>text e. fst (Session_get w (session self) url 10 log) = Inr text \<longrightarrow>
        html_parser w text = Inl e \<longrightarrow>
        fst (research_website w self url log) = [''error'' \<mapsto> PStr (exn_str e)]) \<and>
   (\<forall>e. fst (research_website_try w self url log) = Inl e \<longrightarrow>
        fst (research_website w self url log) = [''error'' \<mapsto> PStr (exn_str e)]) \<and>
   (\<forall>d. fst (research_website_try w self url log) = Inr d \<longrightarrow>
        fst (research_website w self url log) = d \<and>
        dom d = {''description'', ''title'', ''about'', ''tech_hints''}) \<and>
   (dom (fst (research_website w self url log)) = {''error''} \<or>
    dom (fst (research_website w self url log)) = {''description'', ''title'', ''about'', ''tech_hints''})"
proof (intro conjI allI impI)
  fix e assume "fst (Session_get w (session self) url 10 log) = Inl e"
  then show "fst (research_website w self url log) = [''error'' \<mapsto> PStr (exn_str e)]"
    by (simp add: research_website_fst try_fetch_failed)
next
  fix page e
  assume "fst (Session_get w (session self) url 10 log) = Inr page" "html_parser w page = Inl e"
  then show "fst (research_website w self url log) = [''error'' \<mapsto> PStr (exn_str e)]"
    by (simp add: research_website_fst try_parse_failed)
next
  fix e assume "fst (research_website_try w self url log) = Inl e"
  then show "fst (research_website w self url log) = [''error'' \<mapsto> PStr (exn_str e)]"
    by (simp add: research_website_fst)
next
  fix d assume "fst (research_website_try w self url log) = Inr d"
  then show "fst (research_website w self url log) = d"
    by (simp add: research_website_fst)
next
  fix d assume "fst (research_website_try w self url log) = Inr d"
  then show "dom d = {''description'', ''title'', ''about'', ''tech_hints''}"
    by (rule try_Inr_dom)
next
  show "dom (fst (research_website w self url log)) = {''error''} \<or>
    dom (fst (research_website w self url log)) = {''description'', ''title'', ''about'', ''tech_hints''}"
  proof (cases "fst (research_website_try w self url log)")
    case (Inl e)
    then show ?thesis by (simp add: research_website_fst)
  next
    case (Inr d)
    then show ?thesis using try_Inr_dom [OF Inr] by (simp add: research_website_fst)
  qed
qed

text \<open>
  The theorem of C8 on a refused connection and on the example page.
\<close>

theorem research_website_total_witness:
  "fst (research_website (demo_web\<lparr>http_get := \<lambda>r. Inl (Raised ''Connection refused'')\<rparr>)
      (ProspectResearcher_init Map.empty) ''https://acme.example'' [])
     = [''error'' \<mapsto> PStr ''Connection refused''] \<and>
   dom (fst (research_website demo_web (ProspectResearcher_init Map.empty)
      ''https://acme.example'' []))
     = {''description'', ''title'', ''about'', ''tech_hints''}"
proof -
  let ?down = "demo_web\<lparr>http_get := \<lambda>r. Inl (Raised ''Connection refused'')\<rparr>"
  let ?self = "ProspectResearcher_init Map.empty"
  have fetch: "fst (Session_get ?down (session ?self) ''https://acme.example'' 10 [])
      = Inl (Raised ''Connection refused'')"
    by (simp add: Session_get_def send_following_failed demo_web_def)
  note r1 = research_website_total [of ?down ?self "''https://acme.example''" "[]"]
  from conjunct1 [OF r1, THEN spec, THEN mp, OF fetch]
  have down: "fst (research_website ?down ?self ''https://acme.example'' [])
      = [''error'' \<mapsto> PStr (exn_str (Raised ''Connection refused''))]" .
  define D where "D = fst (research_website demo_web ?self ''https://acme.example'' [])"
  have title: "fst (research_website demo_web ?self ''https://acme.example'' []) ''title''
      = Some (PStr ''Acme'')"
    by code_simp
  then have "D ''title'' = Some (PStr ''Acme'')"
    by (simp only: D_def)
  then have "''title'' \<in> dom D"
    by (rule domI)
  moreover have "''title'' \<notin> {''error''}"
    by simp
  ultimately have ne: "dom D \<noteq> {''error''}"
    by metis
  note r2 = research_website_total [of demo_web ?self "''https://acme.example''" "[]"]
  from r2 have "dom D = {''error''} \<or> dom D = {''description'', ''title'', ''about'', ''tech_hints''}"
    unfolding D_def by (elim conjE)
  with ne have page: "dom D = {''description'', ''title'', ''about'', ''tech_hints''}"
    by (elim disjE) (contradiction, assumption)
  show ?thesis
  proof (rule conjI)
    from down show "fst (research_website ?down ?self ''https://acme.example'' [])
       = [''error'' \<mapsto> PStr ''Connection refused'']"
      by (simp only: exn_str.simps)
  next
    from page show "dom (fst (research_website demo_web ?self ''https://acme.example'' []))
       = {''description'', ''title'', ''about'', ''tech_hints''}"
      by (simp only: D_def)
  qed
qed

text \<open>
  Claim C9 (what \<^verbatim>\<open>research\<close> writes). The fields \<^verbatim>\<open>name\<close>, \<^verbatim>\<open>company\<close>, \<^verbatim>\<open>role\<close>,
  \<^verbatim>\<open>email\<close>, \<^verbatim>\<open>linkedin\<close>, \<^verbatim>\<open>website\<close>, \<^verbatim>\<open>recent_news\<close> and \<^verbatim>\<open>pain_points\<close> are
  unchanged; without a website the prospect is returned as it was (and no request
  is made); \<^verbatim>\<open>company_description\<close> changes only to a non-empty description the
  research of the website found, and \<^verbatim>\<open>tech_stack\<close> only to the non-empty list of
  hints it found, joined with a comma and a space.
\<close>

theorem research_frame:
  "name (fst (research w self p log)) = name p \<and>
   company (fst (research w self p log)) = company p \<and>
   role (fst (research w self p log)) = role p \<and>
   email (fst (research w self p log)) = email p \<and>
   linkedin (fst (research w self p log)) = linkedin p \<and>
   website (fst (research w self p log)) = website p \<and>
   recent_news (fst (research w self p log)) = recent_news p \<and>
   pain_points (fst (research w self p log)) = pain_points p \<and>
   (website p = None \<longrightarrow> research w self p log = (p, log)) \<and>
   (company_description (fst (research w self p log)) \<noteq> company_description p \<longrightarrow>
      (\<exists>url d. website p = Some url \<and>
         fst (research_website w self url log) ''description'' = Some (PStr d) \<and> d \<noteq> [] \<and>
         company_description (fst (research w self p log)) = Some d)) \<and>
   (tech_stack (fst (research w self p log)) \<noteq> tech_stack p \<longrightarrow>
      (\<exists>url hints. website p = Some url \<and>
         fst (research_website w self url log) ''tech_hints'' = Some (PList hints) \<and> hints \<noteq> [] \<and>
         tech_stack (fst (research w self p log)) = Some (py_join '', '' hints)))"
proof (cases "website p")
  case None
  then show ?thesis by (simp add: research_def)
next
  case (Some url)
  show ?thesis
  proof (cases "research_website w self url log")
    case (Pair data log')
    show ?thesis
      using Some Pair
      by (cases "data ''description''"; cases "data ''tech_hints''")
         (auto simp: research_def Let_def split: pyval.splits)
  qed
qed

text \<open>
  The theorem of C9 on the example prospect and page.
\<close>

theorem research_frame_witness:
  "name (fst (research demo_web (ProspectResearcher_init Map.empty) demo_prospect [])) = ''Ann'' \<and>
   website (fst (research demo_web (ProspectResearcher_init Map.empty) demo_prospect []))
     = Some ''https://acme.example'' \<and>
   company_description (fst (research demo_web (ProspectResearcher_init Map.empty) demo_prospect []))
     = Some ''We build rockets'' \<and>
   tech_stack (fst (research demo_web (ProspectResearcher_init Map.empty) demo_prospect []))
     = Some ''React, Stripe'' \<and>
   (\<exists>url d. website demo_prospect = Some url \<and>
      fst (research_website demo_web (ProspectResearcher_init Map.empty) url []) ''description''
        = Some (PStr d) \<and> d \<noteq> [] \<and>
      company_description (fst (research demo_web (ProspectResearcher_init Map.empty) demo_prospect []))
        = Some d) \<and>
   (\<exists>url hints. website demo_prospect = Some url \<and>
      fst (research_website demo_web (ProspectResearcher_init Map.empty) url []) ''tech_hints''
        = Some (PList hints) \<and> hints \<noteq> [] \<and>
      tech_stack (fst (research demo_web (ProspectResearcher_init Map.empty) demo_prospect []))
        = Some (py_join '', '' hints))"
proof -
  let ?self = "ProspectResearcher_init Map.empty"
  let ?p = "fst (research demo_web ?self demo_prospect [])"
  note r = research_frame [of demo_web ?self demo_prospect "[]"]
  have description: "company_description ?p = Some ''We build rockets''"
    by code_simp
  have stack: "tech_stack ?p = Some ''React, Stripe''"
    by code_simp
  have before: "name demo_prospect = ''Ann''" "website demo_prospect = Some ''https://acme.example''"
    "company_description demo_prospect = None" "tech_stack demo_prospect = None"
    by (simp_all add: demo_prospect_def)
  from description before have changed1: "company_description ?p \<noteq> company_description demo_prospect"
    by simp
  from stack before have changed2: "tech_stack ?p \<noteq> tech_stack demo_prospect"
    by simp
  from r have "name ?p = name demo_prospect" "website ?p = website demo_prospect"
    by blast+
  moreover from r changed1 have "\<exists>url d. website demo_prospect = Some url \<and>
      fst (research_website demo_web ?self url []) ''description'' = Some (PStr d) \<and> d \<noteq> [] \<and>
      company_description ?p = Some d"
    by blast
  moreover from r changed2 have "\<exists>url hints. website demo_prospect = Some url \<and>
      fst (research_website demo_web ?self url []) ''tech_hints'' = Some (PList hints) \<and>
      hints \<noteq> [] \<and> tech_stack ?p = Some (py_join '', '' hints)"
    by blast
  ultimately show ?thesis
    using description stack before by simp
qed

text \<open>
  Claim C10 (the formatted email), as amended. Without the key \<^verbatim>\<open>subject\<close> a
  KeyError for it is raised, and with it but without \<^verbatim>\<open>body\<close> a KeyError for
  \<^verbatim>\<open>body\<close>. With a subject, a body that is a string and a follow-up that is missing
  or a string, the result is the twelve lines joined by newlines: the subject line,
  the body and the follow-up section, with \<^verbatim>\<open>N/A\<close> for a missing follow-up and
  \<^verbatim>\<open>email@example.com\<close> for an address that is \<^verbatim>\<open>None\<close> (or empty). With a subject
  and a body or a follow-up that is not a string, the join of the lines raises a
  TypeError that names the item (the sixth line is the body, the eleventh the
  follow-up).
\<close>

theorem format_email_cases:
  "(email_dict ''subject'' = None \<longrightarrow> format_email email_dict prospect = Inl (KeyError ''subject'')) \<and>
   (email_dict ''subject'' \<noteq> None \<longrightarrow> email_dict ''body'' = None \<longrightarrow>
      format_email email_dict prospect = Inl (KeyError ''body'')) \<and>
   (\<forall>subject body follow_up.
      email_dict ''subject'' = Some subject \<longrightarrow>
      email_dict ''body'' = Some (Str body) \<longrightarrow>
      (email_dict ''follow_up'' = None \<and> follow_up = ''N/A'' \<or>
       email_dict ''follow_up'' = Some (Str follow_up)) \<longrightarrow>
      format_email email_dict prospect =
        Inr (replicate 60 (CHR ''='') @ ''\<newline>'' @
             ''TO: '' @ name prospect @ '' <'' @
               (case email prospect of
                  None \<Rightarrow> ''email@example.com''
                | Some a \<Rightarrow> if a = [] then ''email@example.com'' else a) @ ''>'' @ ''\<newline>'' @
             ''SUBJECT: '' @ py_str subject @ ''\<newline>'' @
             replicate 60 (CHR ''='') @ ''\<newline>'' @
             ''\<newline>'' @
             body @ ''\<newline>'' @
             ''\<newline>'' @
             replicate 60 (CHR ''-'') @ ''\<newline>'' @
             ''FOLLOW-UP (if no response after 3-5 days):'' @ ''\<newline>'' @
             replicate 60 (CHR ''-'') @ ''\<newline>'' @
             follow_up @ ''\<newline>'')) \<and>
   (\<forall>subject ty r.
      email_dict ''subject'' = Some subject \<longrightarrow>
      email_dict ''body'' = Some (NonStr ty r) \<longrightarrow>
      format_email email_dict prospect =
        Inl (TypeError (''sequence item 5: expected str instance, '' @ ty @ '' found''))) \<and>
   (\<forall>subject body ty r.
      email_dict ''subject'' = Some subject \<longrightarrow>
      email_dict ''body'' = Some (Str body) \<longrightarrow>
      email_dict ''follow_up'' = Some (NonStr ty r) \<longrightarrow>
      format_email email_dict prospect =
        Inl (TypeError (''sequence item 10: expected str instance, '' @ ty @ '' found'')))"
proof (intro conjI allI impI)
  assume "email_dict ''subject'' = None"
  then show "format_email email_dict prospect = Inl (KeyError ''subject'')"
    by (simp add: format_email_def getitem_def)
next
  assume "email_dict ''subject'' \<noteq> None" "email_dict ''body'' = None"
  then show "format_email email_dict prospect = Inl (KeyError ''body'')"
    by (auto simp: format_email_def getitem_def)
next
  fix subject body follow_up
  assume "email_dict ''subject'' = Some subject" "email_dict ''body'' = Some (Str body)"
    "email_dict ''follow_up'' = None \<and> follow_up = ''N/A'' \<or>
     email_dict ''follow_up'' = Some (Str follow_up)"
  then show "format_email email_dict prospect =
        Inr (replicate 60 (CHR ''='') @ ''\<newline>'' @
             ''TO: '' @ name prospect @ '' <'' @
               (case email prospect of
                  None \<Rightarrow> ''email@example.com''
                | Some a \<Rightarrow> if a = [] then ''email@example.com'' else a) @ ''>'' @ ''\<newline>'' @
             ''SUBJECT: '' @ py_str subject @ ''\<newline>'' @
             replicate 60 (CHR ''='') @ ''\<newline>'' @
             ''\<newline>'' @
             body @ ''\<newline>'' @
             ''\<newline>'' @
             replicate 60 (CHR ''-'') @ ''\<newline>'' @
             ''FOLLOW-UP (if no response after 3-5 days):'' @ ''\<newline>'' @
             replicate 60 (CHR ''-'') @ ''\<newline>'' @
             follow_up @ ''\<newline>'')"
    by (auto simp: format_email_def getitem_def join_objects_def py_or_def split: option.splits)
next
  fix subject ty r
  assume "email_dict ''subject'' = Some subject" "email_dict ''body'' = Some (NonStr ty r)"
  then show "format_email email_dict prospect =
        Inl (TypeError (''sequence item 5: expected str instance, '' @ ty @ '' found''))"
    by (simp add: format_email_def getitem_def join_objects_def str_of_nat_5_10)
next
  fix subject body ty r
  assume "email_dict ''subject'' = Some subject" "email_dict ''body'' = Some (Str body)"
    "email_dict ''follow_up'' = Some (NonStr ty r)"
  then show "format_email email_dict prospect =
        Inl (TypeError (''sequence item 10: expected str instance, '' @ ty @ '' found''))"
    by (simp add: format_email_def getitem_def join_objects_def str_of_nat_5_10)
qed

text \<open>
  The theorem of C10 on a dictionary with a subject and a body, on two with one of
  them missing, and on one whose body is a number.
\<close>

theorem format_email_cases_witness:
  "format_email [''subject'' \<mapsto> Str ''Hi'', ''body'' \<mapsto> Str ''Hello''] demo_prospect =
     Inr (replicate 60 (CHR ''='') @ ''\<newline>'' @
          ''TO: Ann <email@example.com>'' @ ''\<newline>'' @
          ''SUBJECT: Hi'' @ ''\<newline>'' @
          replicate 60 (CHR ''='') @ ''\<newline>'' @
          ''\<newline>'' @
          ''Hello'' @ ''\<newline>'' @
          ''\<newline>'' @
          replicate 60 (CHR ''-'') @ ''\<newline>'' @
          ''FOLLOW-UP (if no response after 3-5 days):'' @ ''\<newline>'' @
          replicate 60 (CHR ''-'') @ ''\<newline>'' @
          ''N/A'' @ ''\<newline>'') \<and>
   format_email [''body'' \<mapsto> Str ''Hello''] demo_prospect = Inl (KeyError ''subject'') \<and>
   format_email [''subject'' \<mapsto> Str ''Hi''] demo_prospect = Inl (KeyError ''body'') \<and>
   format_email [''subject'' \<mapsto> Str ''Hi'', ''body'' \<mapsto> NonStr ''int'' ''5''] demo_prospect =
     Inl (TypeError ''sequence item 5: expected str instance, int found'')"
  using format_email_cases [of "[''subject'' \<mapsto> Str ''Hi'', ''body'' \<mapsto> Str ''Hello'']" demo_prospect]
        format_email_cases [of "[''body'' \<mapsto> Str ''Hello'']" demo_prospect]
        format_email_cases [of "[''subject'' \<mapsto> Str ''Hi'']" demo_prospect]
        format_email_cases [of "[''subject'' \<mapsto> Str ''Hi'', ''body'' \<mapsto> NonStr ''int'' ''5'']"
          demo_prospect]
  by (simp add: demo_prospect_def)

text \<open>
  Claim C10 as stated (the keys \<^verbatim>\<open>subject\<close> and \<^verbatim>\<open>body\<close> are all that is needed)
  fails: a dictionary with both keys whose follow-up is JSON's \<^verbatim>\<open>null\<close> makes the
  join of the lines raise a TypeError.
\<close>

theorem format_email_null_follow_up:
  "format_email
     [''subject'' \<mapsto> Str ''Hi'', ''body'' \<mapsto> Str ''Hello'',
      ''follow_up'' \<mapsto> NonStr ''NoneType'' ''None'']
     \<lparr>name = ''Ann'', company = ''Acme'', role = None, email = None, linkedin = None,
      website = None, company_description = None, recent_news = None, tech_stack = None,
      pain_points = None\<rparr>
   = Inl (TypeError ''sequence item 10: expected str instance, NoneType found'')"
  by (simp add: format_email_def getitem_def join_objects_def str_of_nat_5_10)

section \<open>Further properties\<close>

text \<open>
  Further property (the true part of C5). For a page that was fetched and parsed
  and whose first meta description tag, if there is one, has a \<^verbatim>\<open>content\<close>
  attribute: the value under \<^verbatim>\<open>description\<close> is that attribute of the first meta tag
  named \<^verbatim>\<open>description\<close>, or \<^verbatim>\<open>None\<close> without such a tag, and the value under \<^verbatim>\<open>title\<close>
  is the text of the first title tag, or \<^verbatim>\<open>None\<close> without one.
\<close>

theorem description_and_title:
  assumes "fst (Session_get w (session self) url 10 log) = Inr page"
    and "html_parser w page = Inr soup"
    and "case find_first soup ''meta'' [(''name'', Equals ''description'')] of
           None \<Rightarrow> True
         | Some meta_desc \<Rightarrow> tag_attrs meta_desc ''content'' \<noteq> None"
  shows "fst (research_website w self url log) ''description'' =
           Some (case find_first soup ''meta'' [(''name'', Equals ''description'')] of
                   None \<Rightarrow> PNone
                 | Some meta_desc \<Rightarrow>
                     (case tag_attrs meta_desc ''content'' of
                        None \<Rightarrow> PNone
                      | Some v \<Rightarrow> PStr v)) \<and>
         fst (research_website w self url log) ''title'' =
           Some (case find_first soup ''title'' [] of
                   None \<Rightarrow> PNone
                 | Some t \<Rightarrow> PStr (get_text t))"
proof -
  obtain hs where hs: "tech_loop (find_all soup ''script'' [(''src'', Present)]) [] = Inr hs"
    using tech_loop_scripts by blast
  from assms(3) show ?thesis
    unfolding research_website_fst try_page [OF assms(1) assms(2) hs]
    by (auto split: option.splits simp: page_dict_def)
qed

text \<open>The description and the title of the example page.\<close>

theorem description_and_title_witness:
  "fst (research_website demo_web (ProspectResearcher_init Map.empty) ''https://acme.example'' [])
     ''description'' = Some (PStr ''We build rockets'') \<and>
   fst (research_website demo_web (ProspectResearcher_init Map.empty) ''https://acme.example'' [])
     ''title'' = Some (PStr ''Acme'')"
proof -
  have fetch: "fst (Session_get demo_web (session (ProspectResearcher_init Map.empty))
      ''https://acme.example'' 10 []) = Inr ''<html>''"
    by (simp add: Session_get_def send_following_page demo_web_def)
  have parse: "html_parser demo_web ''<html>'' = Inr demo_soup"
    by (simp add: demo_web_def)
  have meta: "find_first demo_soup ''meta'' [(''name'', Equals ''description'')] =
      Some (Tag ''meta'' [''name'' \<mapsto> ''description'', ''content'' \<mapsto> ''We build rockets''] [])"
    by (simp add: find_first_def find_all_def soup_tags_def demo_soup_def)
  have title: "find_first demo_soup ''title'' [] =
      Some (Tag ''title'' Map.empty [NavigableString Plain ''Acme''])"
    by (simp add: find_first_def find_all_def soup_tags_def demo_soup_def)
  have content: "case find_first demo_soup ''meta'' [(''name'', Equals ''description'')] of
           None \<Rightarrow> True
         | Some meta_desc \<Rightarrow> tag_attrs meta_desc ''content'' \<noteq> None"
    by (simp add: meta)
  from description_and_title [OF fetch parse content] show ?thesis
    by (simp add: meta title interesting_string_class_def)
qed

text \<open>
  Further property (the true part of C1). An answer without a code fence is handed
  to the decoder as it is.
\<close>

theorem generate_anthropic_plain:
  assumes "anthropic_messages lib (prompt @ ''\<newline>\<newline>Respond with JSON only.'') = Inr content"
    and "\<not> py_in ''```'' content"
  shows "generate_anthropic lib prompt = json_loads lib content"
  using assms by (simp add: generate_anthropic_def)

text \<open>
  The plain answer \<^verbatim>\<open>{"subject": "json tips"}\<close> reaches the decoder unchanged (the
  decoder here reports what it was handed).
\<close>

theorem generate_anthropic_plain_witness:
  \<open>generate_anthropic
     \<lparr>openai_chat = \<lambda>p. Inl (Raised ''no key''),
      anthropic_messages = \<lambda>p. Inr ''{"subject": "json tips"}'',
      json_loads = \<lambda>s. Inl (Raised s)\<rparr> ''Hi''
     = Inl (Raised ''{"subject": "json tips"}'')\<close>
proof -
  let ?lib = \<open>\<lparr>openai_chat = \<lambda>p. Inl (Raised ''no key''),
      anthropic_messages = \<lambda>p. Inr ''{"subject": "json tips"}'',
      json_loads = \<lambda>s. Inl (Raised s)\<rparr>\<close>
  have answer: \<open>anthropic_messages ?lib (''Hi'' @ ''\<newline>\<newline>Respond with JSON only.'')
      = Inr ''{"subject": "json tips"}''\<close>
    by simp
  have plain: \<open>\<not> py_in ''```'' ''{"subject": "json tips"}''\<close>
    by simp
  from generate_anthropic_plain [OF answer plain] show ?thesis
    by simp
qed

end
